theory Spec2Isabelle
  imports Complex_Main "HOL-Library.Sublist" "HOL-Library.Word"
begin

section \<open>Thrown values\<close>

text \<open>
  A JavaScript \<^verbatim>\<open>throw\<close> carries an arbitrary value. The code looks at two things only:
  whether the value is an instance of \<^verbatim>\<open>Error\<close> (then at its \<^verbatim>\<open>name\<close> and
  \<^verbatim>\<open>message\<close>), and otherwise at \<^verbatim>\<open>String(error)\<close>.
  \<open>ErrorObj name message\<close> is an instance of \<^verbatim>\<open>Error\<close>; \<open>NonError s\<close> is any other thrown
  value, with \<^verbatim>\<open>String(error) = s\<close>.
\<close>

datatype thrown = ErrorObj string string | NonError string

fun instanceof_Error :: "thrown \<Rightarrow> bool" where
  "instanceof_Error (ErrorObj n m) = True"
| "instanceof_Error (NonError s) = False"

fun error_name :: "thrown \<Rightarrow> string option" where
  "error_name (ErrorObj n m) = Some n"
| "error_name (NonError s) = None"

text \<open>\<^verbatim>\<open>error instanceof Error ? error.message : String(error)\<close>\<close>

fun message_or_String :: "thrown \<Rightarrow> string" where
  "message_or_String (ErrorObj n m) = m"
| "message_or_String (NonError s) = s"

text \<open>\<^verbatim>\<open>new Error(msg)\<close>\<close>

definition new_Error :: "string \<Rightarrow> thrown" where
  "new_Error msg = ErrorObj ''Error'' msg"

section \<open>Queue store (lib/redis.ts)\<close>

text \<open>
  The author object of a cast. Only the members the worker and the webhook read are kept:
  \<^verbatim>\<open>username\<close>, \<^verbatim>\<open>fid\<close>, and \<^verbatim>\<open>verified_addresses?.eth_addresses\<close>, which is
  \<open>None\<close> when either level is absent.
\<close>

record CastAuthor =
  username :: string
  fid :: nat
  eth_addresses :: "string list option"

record QueuedCast =
  castHash :: string
  parentHash :: string
  cast_text :: string
  author :: CastAuthor
  parentAuthor :: CastAuthor
  timestamp :: string

record FailedMint = QueuedCast +
  error :: string
  failedAt :: string

text \<open>
  The three Redis collections of the module: the lists \<^verbatim>\<open>mint_queue\<close> and
  \<^verbatim>\<open>failed_mint_queue\<close> (index 0 is the head, where \<^verbatim>\<open>LPUSH\<close> inserts) and the set
  \<^verbatim>\<open>processed_casts\<close>. A list element stands for the JSON text that
  \<^verbatim>\<open>JSON.stringify\<close> wrote and \<^verbatim>\<open>JSON.parse\<close> reads back.
\<close>

record redis_store =
  mint_queue :: "QueuedCast list"
  failed_mint_queue :: "FailedMint list"
  processed_casts :: "string set"

text \<open>The Redis primitives behind the \<^verbatim>\<open>redis\<close> wrapper object.\<close>

definition lPush :: "'a list \<Rightarrow> 'a \<Rightarrow> nat \<times> 'a list" where
  "lPush xs v = (Suc (length xs), v # xs)"

definition rPop :: "'a list \<Rightarrow> 'a option \<times> 'a list" where
  "rPop xs = (if xs = [] then (None, []) else (Some (last xs), butlast xs))"

text \<open>\<^verbatim>\<open>LRANGE key start stop\<close>: both ends inclusive, negative indices count from the tail.\<close>

definition lRange :: "'a list \<Rightarrow> int \<Rightarrow> int \<Rightarrow> 'a list" where
  "lRange xs start stop =
     (let n = int (length xs);
          s = (if start < 0 then max 0 (n + start) else start);
          e = (if stop < 0 then n + stop else min stop (n - 1))
      in if s > e \<or> s \<ge> n then [] else take (nat (e - s + 1)) (drop (nat s) xs))"

definition markCastAsProcessed :: "string \<Rightarrow> redis_store \<Rightarrow> redis_store" where
  "markCastAsProcessed h r = r\<lparr>processed_casts := insert h (processed_casts r)\<rparr>"

definition isCastProcessed :: "string \<Rightarrow> redis_store \<Rightarrow> bool" where
  "isCastProcessed h r = (h \<in> processed_casts r)"

definition enqueueCast :: "QueuedCast \<Rightarrow> redis_store \<Rightarrow> nat \<times> redis_store" where
  "enqueueCast d r = (case lPush (mint_queue r) d of (n, q) \<Rightarrow> (n, r\<lparr>mint_queue := q\<rparr>))"

definition peekQueue :: "redis_store \<Rightarrow> QueuedCast option" where
  "peekQueue r = (case lRange (mint_queue r) 0 0 of [] \<Rightarrow> None | x # _ \<Rightarrow> Some x)"

definition dequeueCast :: "redis_store \<Rightarrow> QueuedCast option \<times> redis_store" where
  "dequeueCast r = (case rPop (mint_queue r) of
                      (None, q) \<Rightarrow> (None, r)
                    | (Some d, q) \<Rightarrow> (Some d, r\<lparr>mint_queue := q\<rparr>))"

text \<open>
  \<^verbatim>\<open>addToFailedQueue(data, error)\<close>; \<open>now\<close> is the value of
  \<^verbatim>\<open>new Date().toISOString()\<close> at the call.
\<close>

definition failedMint :: "QueuedCast \<Rightarrow> string \<Rightarrow> string \<Rightarrow> FailedMint" where
  "failedMint d err now = QueuedCast.extend d (FailedMint.fields err now)"

definition addToFailedQueue :: "string \<Rightarrow> QueuedCast \<Rightarrow> string \<Rightarrow> redis_store \<Rightarrow> nat \<times> redis_store" where
  "addToFailedQueue now d err r =
     (case lPush (failed_mint_queue r) (failedMint d err now) of
        (n, q) \<Rightarrow> (n, r\<lparr>failed_mint_queue := q\<rparr>))"

definition getFailedMints :: "redis_store \<Rightarrow> FailedMint list" where
  "getFailedMints r = lRange (failed_mint_queue r) 0 (- 1)"

subsection \<open>Traces of queue operations\<close>

datatype queue_op = Enqueue QueuedCast | Dequeue

text \<open>
  Runs a sequence of \<^verbatim>\<open>enqueueCast\<close> / \<^verbatim>\<open>dequeueCast\<close> calls on a store and collects
  the items the dequeues returned, in the order they were returned.
\<close>

fun run_ops :: "redis_store \<Rightarrow> queue_op list \<Rightarrow> redis_store \<times> QueuedCast list" where
  "run_ops r [] = (r, [])"
| "run_ops r (Enqueue d # ops) = run_ops (snd (enqueueCast d r)) ops"
| "run_ops r (Dequeue # ops) =
     (case dequeueCast r of
        (None, r') \<Rightarrow> run_ops r' ops
      | (Some d, r') \<Rightarrow> (case run_ops r' ops of (r'', out) \<Rightarrow> (r'', d # out)))"

fun enqueued :: "queue_op list \<Rightarrow> QueuedCast list" where
  "enqueued [] = []"
| "enqueued (Enqueue d # ops) = d # enqueued ops"
| "enqueued (Dequeue # ops) = enqueued ops"

section \<open>Strings\<close>

text \<open>
  A \<open>string\<close> is the UTF-8 byte sequence of the JavaScript string, so \<open>length\<close> is the byte
  length that \<^verbatim>\<open>Buffer.from(s)\<close> has. \<open>toLowerCase\<close> maps the ASCII letters. No character
  outside ASCII has a lower case among the hex digits or \<^verbatim>\<open>x\<close>, and the regular expression
  flag \<^verbatim>\<open>i\<close> (without \<^verbatim>\<open>u\<close>) never equates a character outside ASCII with an ASCII
  one, so the tests below give the answers they give on the JavaScript strings.
\<close>

definition lower_char :: "char \<Rightarrow> char" where
  "lower_char c =
     (case map_of (zip ''ABCDEFGHIJKLMNOPQRSTUVWXYZ'' ''abcdefghijklmnopqrstuvwxyz'') c of
        Some l \<Rightarrow> l
      | None \<Rightarrow> c)"

definition toLowerCase :: "string \<Rightarrow> string" where
  "toLowerCase s = map lower_char s"

text \<open>
  The white space and line terminators of ECMAScript, which are the regular expression
  class \<^verbatim>\<open>\s\<close> and the characters \<^verbatim>\<open>trim()\<close> strips, each in UTF-8: U+0009 to U+000D,
  U+0020, U+00A0, U+1680, U+2000 to U+200A, U+2028, U+2029, U+202F, U+205F, U+3000, U+FEFF.
\<close>

definition white_space :: "string list" where
  "white_space =
     [[CHR 0x09], [CHR 0x0A], [CHR 0x0B], [CHR 0x0C], [CHR 0x0D], [CHR 0x20],
      [CHR 0xC2, CHR 0xA0],
      [CHR 0xE1, CHR 0x9A, CHR 0x80],
      [CHR 0xE2, CHR 0x80, CHR 0x80], [CHR 0xE2, CHR 0x80, CHR 0x81],
      [CHR 0xE2, CHR 0x80, CHR 0x82], [CHR 0xE2, CHR 0x80, CHR 0x83],
      [CHR 0xE2, CHR 0x80, CHR 0x84], [CHR 0xE2, CHR 0x80, CHR 0x85],
      [CHR 0xE2, CHR 0x80, CHR 0x86], [CHR 0xE2, CHR 0x80, CHR 0x87],
      [CHR 0xE2, CHR 0x80, CHR 0x88], [CHR 0xE2, CHR 0x80, CHR 0x89],
      [CHR 0xE2, CHR 0x80, CHR 0x8A],
      [CHR 0xE2, CHR 0x80, CHR 0xA8], [CHR 0xE2, CHR 0x80, CHR 0xA9],
      [CHR 0xE2, CHR 0x80, CHR 0xAF],
      [CHR 0xE2, CHR 0x81, CHR 0x9F],
      [CHR 0xE3, CHR 0x80, CHR 0x80],
      [CHR 0xEF, CHR 0xBB, CHR 0xBF]]"

text \<open>Removes from the front of a string every leading occurrence of one of the given sequences.\<close>

function strip_leading :: "string list \<Rightarrow> string \<Rightarrow> string" where
  "strip_leading ws s =
     (case filter (\<lambda>w. w \<noteq> [] \<and> prefix w s) ws of
        [] \<Rightarrow> s
      | w # _ \<Rightarrow> strip_leading ws (drop (length w) s))"
  by pat_completeness auto
termination
proof (relation "measure (\<lambda>(ws, s). length s)")
  show "wf (measure (\<lambda>(ws, s). length s))" by simp
next
  fix ws :: "string list" and s w :: string and rest
  assume "filter (\<lambda>w. w \<noteq> [] \<and> prefix w s) ws = w # rest"
  then have "w \<in> set (filter (\<lambda>w. w \<noteq> [] \<and> prefix w s) ws)" by simp
  then have "w \<noteq> []" and "prefix w s" by simp_all
  then have "length w \<le> length s" and "length w \<noteq> 0"
    by (simp_all add: prefix_length_le)
  then show "((ws, drop (length w) s), (ws, s)) \<in> measure (\<lambda>(ws, s). length s)"
    by (cases w) auto
qed

declare strip_leading.simps [simp del]

text \<open>\<^verbatim>\<open>s.trim()\<close>: the white space is stripped at the front and, read backwards, at the end.\<close>

definition trim :: "string \<Rightarrow> string" where
  "trim s = rev (strip_leading (map rev white_space) (rev (strip_leading white_space s)))"

definition letters :: string where
  "letters = ''ABCDEFGHIJKLMNOPQRSTUVWXYZabcdefghijklmnopqrstuvwxyz''"

text \<open>Decimal rendering of a number inside a template string.\<close>

fun show_nat :: "nat \<Rightarrow> string" where
  "show_nat n =
     (if n < 10 then [''0123456789'' ! n]
      else show_nat (n div 10) @ [''0123456789'' ! (n mod 10)])"

declare show_nat.simps [simp del]

text \<open>A possibly missing string is falsy when it is \<^verbatim>\<open>null\<close> or empty.\<close>

fun falsy :: "string option \<Rightarrow> bool" where
  "falsy None = True"
| "falsy (Some s) = (s = [])"

section \<open>Webhook signature check (lib/webhook.ts)\<close>

text \<open>
  Node's \<^verbatim>\<open>crypto\<close> module is not part of the repository. The keyed hash
  \<^verbatim>\<open>createHmac('sha256', secret).update(msg).digest()\<close> is a parameter \<open>hmac secret msg\<close>
  whose value is a 256-bit digest; \<^verbatim>\<open>digest('hex')\<close> renders it as 64 lower-case hex digits.
\<close>

type_synonym hmac_sha256 = "string \<Rightarrow> string \<Rightarrow> 256 word"

fun to_hex :: "nat \<Rightarrow> nat \<Rightarrow> string" where
  "to_hex 0 n = []"
| "to_hex (Suc k) n = to_hex k (n div 16) @ [''0123456789abcdef'' ! (n mod 16)]"

definition digest_hex :: "256 word \<Rightarrow> string" where
  "digest_hex w = to_hex 64 (unat w)"

text \<open>
  \<^verbatim>\<open>crypto.timingSafeEqual(a, b)\<close> throws a \<^verbatim>\<open>RangeError\<close> when the two buffers differ in
  byte length, and compares them otherwise.
\<close>

definition timingSafeEqual :: "string \<Rightarrow> string \<Rightarrow> thrown + bool" where
  "timingSafeEqual a b =
     (if length a \<noteq> length b
      then Inl (ErrorObj ''RangeError'' ''Input buffers must have the same byte length'')
      else Inr (a = b))"

definition verifyWebhookSignature ::
  "hmac_sha256 \<Rightarrow> string \<Rightarrow> string option \<Rightarrow> string option \<Rightarrow> string \<Rightarrow> thrown + bool" where
  "verifyWebhookSignature hmac payload signature tstamp secret =
     (if falsy signature \<or> falsy tstamp then Inr False
      else case (signature, tstamp) of
        (Some sg, Some ts) \<Rightarrow>
          let signaturePayload = ts @ ''.'' @ payload;
              expectedSignature = digest_hex (hmac secret signaturePayload)
          in timingSafeEqual sg expectedSignature
      | _ \<Rightarrow> Inr False)"

section \<open>Split creation (api/createSplit route)\<close>

text \<open>
  A member of the parsed request body, typed \<^verbatim>\<open>unknown\<close> by the validator: absent (or any
  falsy value that is not a string), a string, or a truthy value of another type, of which
  only the \<^verbatim>\<open>typeof\<close> name is read.
\<close>

datatype wallet_field = Absent | Str string | NonString string

record CreateSplitRequest =
  casterWallet :: wallet_field
  minterWallet :: wallet_field

fun falsy_field :: "wallet_field \<Rightarrow> bool" where
  "falsy_field Absent = True"
| "falsy_field (Str s) = (s = [])"
| "falsy_field (NonString t) = False"

definition EDITMINT_WALLET :: string where
  "EDITMINT_WALLET = ''0x9e1C8368d6773183e2E0b521e73a49D094D25818''"

definition PLATFORM_SHARE :: nat where "PLATFORM_SHARE = 45"
definition CASTER_SHARE :: nat where "CASTER_SHARE = 50"
definition MINTER_SHARE :: nat where "MINTER_SHARE = 5"

record recipient =
  address :: string
  percentAllocation :: nat

record splits_config =
  recipients :: "recipient list"
  distributorFeePercent :: nat

text \<open>The test \<^verbatim>\<open>/^0x[0-9a-f]{40}$/\<close>.\<close>

definition is_hex_address :: "string \<Rightarrow> bool" where
  "is_hex_address s =
     (length s = 42 \<and> take 2 s = ''0x'' \<and> list_all (\<lambda>c. c \<in> set ''0123456789abcdef'') (drop 2 s))"

fun validateAndConvertAddress :: "wallet_field \<Rightarrow> thrown + string" where
  "validateAndConvertAddress (Str a) =
     (let trimmedAddress = toLowerCase (trim a)
      in if \<not> is_hex_address trimmedAddress
         then Inl (new_Error (''Invalid wallet address format: '' @ a))
         else Inr trimmedAddress)"
| "validateAndConvertAddress (NonString t) =
     Inl (new_Error (''Wallet address must be a string. Received type: '' @ t))"
| "validateAndConvertAddress Absent =
     Inl (new_Error ''Wallet address must be a string. Received type: undefined'')"

text \<open>The presence check and the two validations at the head of the handler.\<close>

definition validateRequest :: "CreateSplitRequest \<Rightarrow> thrown + string \<times> string" where
  "validateRequest data =
     (if falsy_field (casterWallet data) \<or> falsy_field (minterWallet data)
      then Inl (new_Error ''Both casterWallet and minterWallet addresses are required'')
      else case validateAndConvertAddress (casterWallet data) of
             Inl e \<Rightarrow> Inl e
           | Inr casterAddress \<Rightarrow>
               (case validateAndConvertAddress (minterWallet data) of
                  Inl e \<Rightarrow> Inl e
                | Inr minterAddress \<Rightarrow> Inr (casterAddress, minterAddress)))"

definition isSameAddress :: "string \<Rightarrow> string \<Rightarrow> bool" where
  "isSameAddress casterAddress minterAddress =
     (toLowerCase casterAddress = toLowerCase minterAddress)"

definition splitsConfig :: "string \<Rightarrow> string \<Rightarrow> splits_config" where
  "splitsConfig casterAddress minterAddress =
     \<lparr>recipients =
        (if isSameAddress casterAddress minterAddress
         then [\<lparr>address = casterAddress, percentAllocation = CASTER_SHARE + MINTER_SHARE\<rparr>,
               \<lparr>address = EDITMINT_WALLET, percentAllocation = PLATFORM_SHARE\<rparr>]
         else [\<lparr>address = casterAddress, percentAllocation = CASTER_SHARE\<rparr>,
               \<lparr>address = minterAddress, percentAllocation = MINTER_SHARE\<rparr>,
               \<lparr>address = EDITMINT_WALLET, percentAllocation = PLATFORM_SHARE\<rparr>]),
      distributorFeePercent = 0\<rparr>"

text \<open>
  The chain and the 0xSplits SDK are outside the repository. The chain is the set of split
  addresses that exist and the list of transactions this service has submitted.
  \<open>predictAddress\<close> is the address \<^verbatim>\<open>predictImmutableSplitAddress\<close> computes from a
  configuration; \<open>splitExists\<close> is read from the chain. Each remote call may throw; a
  submitted transaction that is mined and succeeds creates the split.
\<close>

record transaction =
  tx_to :: string
  tx_data :: splits_config
  tx_value :: nat

record chain =
  existing_splits :: "string set"
  submitted :: "transaction list"

record splits_env =
  predictAddress :: "splits_config \<Rightarrow> string"
  predict_failure :: "thrown option"
  factory_address :: string
  callData_failure :: "thrown option"
  sendTransaction_result :: "thrown + string"
  receipt_result :: "thrown + string \<times> bool"

record split_result =
  split_address :: string
  transactionHash :: "string option"
  shares :: "(string \<times> string) list"

datatype split_response = Created split_result | ServerError string

fun response_status :: "split_response \<Rightarrow> nat" where
  "response_status (Created r) = 201"
| "response_status (ServerError m) = 500"

text \<open>
  The immediately invoked function of the handler: predict, then deploy only when the split
  does not exist. The address returned is the predicted one on both branches.
\<close>

definition resolveSplit :: "splits_env \<Rightarrow> splits_config \<Rightarrow> chain \<Rightarrow> (thrown + string \<times> string option) \<times> chain" where
  "resolveSplit env cfg c =
     (case predict_failure env of
        Some e \<Rightarrow> (Inl e, c)
      | None \<Rightarrow>
          let splitAddress = predictAddress env cfg;
              splitExists = (splitAddress \<in> existing_splits c)
          in if \<not> splitExists
             then (case callData_failure env of
                     Some e \<Rightarrow> (Inl e, c)
                   | None \<Rightarrow>
                       (case sendTransaction_result env of
                          Inl e \<Rightarrow> (Inl e, c)
                        | Inr hash \<Rightarrow>
                            let c1 = c\<lparr>submitted := submitted c @
                                       [\<lparr>tx_to = factory_address env, tx_data = cfg, tx_value = 0\<rparr>]\<rparr>
                            in (case receipt_result env of
                                  Inl e \<Rightarrow> (Inl e, c1)
                                | Inr (receiptHash, succeeded) \<Rightarrow>
                                    (Inr (splitAddress, Some receiptHash),
                                     if succeeded
                                     then c1\<lparr>existing_splits := insert splitAddress (existing_splits c1)\<rparr>
                                     else c1))))
             else (Inr (splitAddress, None), c))"

definition shares_of :: "bool \<Rightarrow> (string \<times> string) list" where
  "shares_of same =
     (if same
      then [(''caster'', show_nat (CASTER_SHARE + MINTER_SHARE) @ ''%''),
            (''platform'', show_nat PLATFORM_SHARE @ ''%'')]
      else [(''caster'', show_nat CASTER_SHARE @ ''%''),
            (''minter'', show_nat MINTER_SHARE @ ''%''),
            (''platform'', show_nat PLATFORM_SHARE @ ''%'')])"

text \<open>
  \<^verbatim>\<open>POST\<close>, on the parsed request body: every throw inside the handler is caught and
  answered with status 500 and the message (or a fixed text when the thrown value is not an
  \<^verbatim>\<open>Error\<close>).
\<close>

definition error_response :: "thrown \<Rightarrow> split_response" where
  "error_response e =
     ServerError (if instanceof_Error e then message_or_String e
                  else ''An unexpected error occurred while creating the split contract'')"

definition createSplit_POST :: "splits_env \<Rightarrow> CreateSplitRequest \<Rightarrow> chain \<Rightarrow> split_response \<times> chain" where
  "createSplit_POST env data c =
     (case validateRequest data of
        Inl e \<Rightarrow> (error_response e, c)
      | Inr (casterAddress, minterAddress) \<Rightarrow>
          (case resolveSplit env (splitsConfig casterAddress minterAddress) c of
             (Inl e, c') \<Rightarrow> (error_response e, c')
           | (Inr (splitAddress, txHash), c') \<Rightarrow>
               (Created \<lparr>split_address = splitAddress, transactionHash = txHash,
                         shares = shares_of (isSameAddress casterAddress minterAddress)\<rparr>, c')))"

section \<open>API calls with a timeout and retries (workers/mint-worker.ts)\<close>

definition RETRY_DELAY :: nat where "RETRY_DELAY = 5000"
definition MAX_RETRIES :: nat where "MAX_RETRIES = 3"
definition API_TIMEOUT :: nat where "API_TIMEOUT = 30000"

text \<open>
  A remote call, seen from the worker: left alone it would settle after some milliseconds,
  either rejecting with a thrown value or resolving with a response, or it never settles.
\<close>

datatype 'a call = Settles nat "thrown + 'a" | Hangs

text \<open>
  The rejection of \<^verbatim>\<open>fetch\<close> when its signal is aborted, and the rejection on a failure
  of the transport.
\<close>

definition AbortError :: thrown where
  "AbortError = ErrorObj ''AbortError'' ''This operation was aborted''"

definition transport_failure :: thrown where
  "transport_failure = ErrorObj ''TypeError'' ''fetch failed''"

text \<open>
  \<^verbatim>\<open>fetch(url, {...options, signal})\<close> under the timer
  \<^verbatim>\<open>setTimeout(() => controller.abort(), API_TIMEOUT)\<close>: a call that has not settled when
  the timer fires is aborted. A call that would settle in the very millisecond of the timer
  is taken as aborted too.
\<close>

fun fetch_with_signal :: "'a call \<Rightarrow> thrown + 'a" where
  "fetch_with_signal (Settles t r) = (if t < API_TIMEOUT then r else Inl AbortError)"
| "fetch_with_signal Hangs = Inl AbortError"

text \<open>
  \<^verbatim>\<open>fetchWithRetry(url, options, retries)\<close>. \<open>fetch k\<close> is the \<open>k\<close>-th call made to the
  url; the result carries the number of calls made so far.
\<close>

fun fetchWithRetry :: "(nat \<Rightarrow> 'a call) \<Rightarrow> nat \<Rightarrow> nat \<Rightarrow> (thrown + 'a) \<times> nat" where
  "fetchWithRetry fetch k retries =
     (case fetch_with_signal (fetch k) of
        Inr response \<Rightarrow> (Inr response, Suc k)
      | Inl e \<Rightarrow>
          if retries > 0 \<and> instanceof_Error e \<and> error_name e \<noteq> Some ''AbortError''
          then fetchWithRetry fetch (Suc k) (retries - 1)
          else (Inl e, Suc k))"

declare fetchWithRetry.simps [simp del]

section \<open>The mint worker (workers/mint-worker.ts)\<close>

subsection \<open>Responses of the remote services\<close>

text \<open>
  The body of an answer that is not ok, as its caller reads it: parsing it as JSON throws;
  or it is the JSON value \<^verbatim>\<open>null\<close>, of which reading a member throws a
  \<^verbatim>\<open>TypeError\<close>; or it is another JSON value, given by the member the caller prints
  (\<^verbatim>\<open>error\<close>, or \<^verbatim>\<open>message\<close> for the Neynar API), \<open>None\<close> when that member is absent
  or falsy.
\<close>

datatype failure_body = Unparseable thrown | Null | Member "string option"

definition null_member_error :: "string \<Rightarrow> thrown" where
  "null_member_error m =
     ErrorObj ''TypeError''
       (''Cannot read properties of null (reading '' @ [CHR 0x27] @ m @ [CHR 0x27] @ '')'')"

text \<open>
  What the callers read of a \<^verbatim>\<open>Response\<close>: \<^verbatim>\<open>ok\<close>, \<^verbatim>\<open>status\<close>, the body text,
  the body of an answer that is not ok, and the value the caller takes from
  \<^verbatim>\<open>await response.json()\<close> of an answer that is ok. That value is \<open>Inl e\<close> when
  \<^verbatim>\<open>json()\<close> throws \<open>e\<close> or when the caller reads a member of an object that the body
  lacks, which throws a \<^verbatim>\<open>TypeError\<close> \<open>e\<close>. A member that the caller reads and passes on
  untested is \<open>None\<close> when the body lacks it.
\<close>

record 'a response =
  ok :: bool
  resp_status :: nat
  body_text :: string
  failure :: failure_body
  json :: "thrown + 'a"

text \<open>An absent value printed in a template string.\<close>

fun render :: "string option \<Rightarrow> string" where
  "render None = ''undefined''"
| "render (Some s) = s"

record parent_cast =
  pc_author_fid :: "nat option"
  pc_author_username :: "string option"
  pc_text :: "string option"

record token_info =
  contractAddress :: "string option"
  tokenId :: "string option"

record metadata_properties =
  casterUsername :: "string option"
  minterUsername :: string
  prop_castHash :: string
  mintHash :: string
  prop_timestamp :: string

record metadata =
  md_name :: string
  description :: "string option"
  image :: "string option"
  properties :: metadata_properties

text \<open>A row of the table \<^verbatim>\<open>minted_casts\<close> (lib/supabase.ts).\<close>

record MintedCast =
  cast_hash :: string
  zora_url :: string
  caster_username :: "string option"
  minter_username :: string
  mint_hash :: string
  minted_at :: string
  contract_address :: "string option"
  token_id :: "string option"

record cast_post =
  post_text :: string
  post_parent :: string
  post_embeds :: "string list"

text \<open>
  Everything outside the process that one run of the worker meets: the clock, the
  environment variable of the contract address, the six remote calls made through
  \<^verbatim>\<open>fetchWithRetry\<close> (each a function of what is sent and of the number of the attempt),
  the \<^verbatim>\<open>error\<close> the history store returns on an insert, and the outcome of the
  \<^verbatim>\<open>fetch\<close> by which \<^verbatim>\<open>neynarClient.publishCast\<close> posts a cast.
\<close>

record world =
  now :: string
  NEXT_PUBLIC_CONTRACT_ADDRESS :: string
  neynar_cast :: "string \<Rightarrow> nat \<Rightarrow> parent_cast option response call"
  neynar_user :: "nat option \<Rightarrow> nat \<Rightarrow> CastAuthor list response call"
  api_createImage :: "string \<Rightarrow> nat \<Rightarrow> string option response call"
  api_ipfs :: "metadata \<Rightarrow> nat \<Rightarrow> string option response call"
  api_createSplit :: "string \<times> string \<Rightarrow> nat \<Rightarrow> string option response call"
  api_createToken ::
    "string \<times> string option \<times> string option \<Rightarrow> nat \<Rightarrow> token_info response call"
  supabase_insert :: "MintedCast \<Rightarrow> thrown option"
  neynar_post :: "cast_post \<Rightarrow> thrown + unit response"

subsection \<open>State of the worker and of the stores\<close>

record queueHealth_t =
  status :: string
  lastProcessed :: "string option"
  currentQueueSize :: nat
  failedMintsCount :: nat
  errors :: "string list"

text \<open>
  The module variables \<^verbatim>\<open>isProcessing\<close>, \<^verbatim>\<open>isShuttingDown\<close>,
  \<^verbatim>\<open>lastProcessedTime\<close> and \<^verbatim>\<open>queueHealth\<close>, the Redis store, the history table, the
  casts published, and the number of calls \<^verbatim>\<open>setTimeout(processQueueItem, RETRY_DELAY)\<close>
  made so far. Redis commands are taken to succeed, except in \<^verbatim>\<open>getHealthStatus\<close>, which
  handles their failure itself.
\<close>

record worker_state =
  isProcessing :: bool
  isShuttingDown :: bool
  lastProcessedTime :: "string option"
  queueHealth :: queueHealth_t
  redis :: redis_store
  minted_casts :: "MintedCast list"
  published :: "cast_post list"
  scheduled :: nat

subsection \<open>lib/supabase.ts\<close>

definition storeMintedNFT ::
  "world \<Rightarrow> string \<Rightarrow> string \<Rightarrow> string option \<Rightarrow> string \<Rightarrow> string \<Rightarrow> string
     \<Rightarrow> string option \<Rightarrow> string option
     \<Rightarrow> MintedCast list \<Rightarrow> thrown + MintedCast list" where
  "storeMintedNFT w castHash' zoraUrl casterUsername' minterUsername' mintHash' timestamp'
       contractAddress' tokenId' table =
     (let row = \<lparr>cast_hash = castHash', zora_url = zoraUrl, caster_username = casterUsername',
                  minter_username = minterUsername', mint_hash = mintHash',
                  minted_at = timestamp', contract_address = contractAddress',
                  token_id = tokenId'\<rparr>
      in case supabase_insert w row of
           Some e \<Rightarrow> Inl e
         | None \<Rightarrow> Inr (table @ [row]))"

text \<open>
  \<^verbatim>\<open>getMintingDetails\<close>: \<^verbatim>\<open>.single()\<close> reports code \<^verbatim>\<open>PGRST116\<close> unless exactly one
  row matches, and that code is answered with \<^verbatim>\<open>null\<close>.
\<close>

definition getMintingDetails :: "string \<Rightarrow> MintedCast list \<Rightarrow> MintedCast option" where
  "getMintingDetails h table =
     (case filter (\<lambda>row. cast_hash row = h) table of [row] \<Rightarrow> Some row | _ \<Rightarrow> None)"

subsection \<open>lib/neynar.ts\<close>

text \<open>
  \<^verbatim>\<open>neynarClient.publishCast\<close>, given the outcome of its \<^verbatim>\<open>fetch\<close>; the result is the
  value it throws, if any. The signer, a constant of the environment, is left out of the
  cast posted.
\<close>

definition publishCast :: "(cast_post \<Rightarrow> thrown + unit response) \<Rightarrow> cast_post \<Rightarrow> thrown option" where
  "publishCast post p =
     (case post p of
        Inl e \<Rightarrow> Some e
      | Inr response \<Rightarrow>
          if \<not> ok response
          then (case failure response of
                  Unparseable e \<Rightarrow> Some e
                | Null \<Rightarrow> Some (null_member_error ''message'')
                | Member None \<Rightarrow> Some (new_Error ''Neynar API error: Unknown error'')
                | Member (Some m) \<Rightarrow> Some (new_Error (''Neynar API error: '' @ m)))
          else (case json response of Inl e \<Rightarrow> Some e | Inr u \<Rightarrow> None))"

subsection \<open>Steps of the pipeline\<close>

definition then_do :: "thrown + 'a \<Rightarrow> ('a \<Rightarrow> thrown + 'b) \<Rightarrow> thrown + 'b" where
  "then_do r f = (case r of Inl e \<Rightarrow> Inl e | Inr x \<Rightarrow> f x)"

text \<open>\<^verbatim>\<open>a.verified_addresses?.eth_addresses?.[0]\<close>, when truthy.\<close>

definition first_eth_address :: "CastAuthor \<Rightarrow> string option" where
  "first_eth_address a =
     (case eth_addresses a of
        Some (x # xs) \<Rightarrow> if x = [] then None else Some x
      | _ \<Rightarrow> None)"

definition minterWallet_of :: "QueuedCast \<Rightarrow> thrown + string" where
  "minterWallet_of d =
     (case first_eth_address (author d) of
        None \<Rightarrow> Inl (new_Error ''Minter has no verified ETH address'')
      | Some a \<Rightarrow> Inr a)"

definition fetchParentCast :: "world \<Rightarrow> QueuedCast \<Rightarrow> thrown + parent_cast" where
  "fetchParentCast w d =
     then_do (fst (fetchWithRetry (neynar_cast w (parentHash d)) 0 MAX_RETRIES))
       (\<lambda>parentCastResponse.
          if \<not> ok parentCastResponse
          then Inl (new_Error (''Failed to fetch parent cast: ''
                                 @ show_nat (resp_status parentCastResponse)))
          else then_do (json parentCastResponse)
                 (\<lambda>parentCast. case parentCast of
                                  None \<Rightarrow> Inl (new_Error ''Parent cast not found'')
                                | Some pc \<Rightarrow> Inr pc))"

definition fetchCasterWallet :: "world \<Rightarrow> parent_cast \<Rightarrow> thrown + string" where
  "fetchCasterWallet w parentCast =
     then_do (fst (fetchWithRetry (neynar_user w (pc_author_fid parentCast)) 0 MAX_RETRIES))
       (\<lambda>userResponse.
          if \<not> ok userResponse
          then Inl (new_Error (''Failed to fetch parent author details: ''
                                 @ show_nat (resp_status userResponse)))
          else then_do (json userResponse)
                 (\<lambda>users. case (case users of [] \<Rightarrow> None
                                             | u # _ \<Rightarrow> first_eth_address u) of
                             None \<Rightarrow> Inl (new_Error ''Parent cast author has no verified ETH address'')
                           | Some a \<Rightarrow> Inr a))"

text \<open>
  On an answer that is not ok the body text is parsed inside a \<^verbatim>\<open>try\<close> of its own, which
  replaces an unparseable body by \<^verbatim>\<open>{ error: responseText }\<close>; the member
  \<^verbatim>\<open>errorJson.error\<close> is read after it, so a body \<^verbatim>\<open>null\<close> throws a \<^verbatim>\<open>TypeError\<close>.
\<close>

definition createImage :: "world \<Rightarrow> QueuedCast \<Rightarrow> thrown + string option" where
  "createImage w d =
     then_do (fst (fetchWithRetry (api_createImage w (parentHash d)) 0 MAX_RETRIES))
       (\<lambda>imageResponse.
          if \<not> ok imageResponse
          then (let textOrUnknown = (if body_text imageResponse \<noteq> []
                                     then body_text imageResponse
                                     else ''Unknown error'');
                    failed = (\<lambda>reason. Inl (new_Error (''Failed to create image (''
                                                      @ show_nat (resp_status imageResponse)
                                                      @ ''): '' @ reason)))
                in case failure imageResponse of
                     Unparseable e \<Rightarrow> failed textOrUnknown
                   | Null \<Rightarrow> Inl (null_member_error ''error'')
                   | Member None \<Rightarrow> failed textOrUnknown
                   | Member (Some e) \<Rightarrow> failed e)
          else json imageResponse)"

text \<open>
  \<^verbatim>\<open>const error = await r.json().catch(() => ({ error: 'Failed to parse error response' }));
  throw new Error(prefix + (error.error || 'Unknown error'))\<close>: the value thrown.
\<close>

definition failed_with :: "string \<Rightarrow> 'a response \<Rightarrow> thrown" where
  "failed_with what r =
     (let failed = (\<lambda>reason. new_Error (what @ '' ('' @ show_nat (resp_status r) @ ''): '' @ reason))
      in case failure r of
           Unparseable e \<Rightarrow> failed ''Failed to parse error response''
         | Null \<Rightarrow> null_member_error ''error''
         | Member None \<Rightarrow> failed ''Unknown error''
         | Member (Some e) \<Rightarrow> failed e)"

definition uploadMetadata :: "world \<Rightarrow> metadata \<Rightarrow> thrown + string option" where
  "uploadMetadata w md =
     then_do (fst (fetchWithRetry (api_ipfs w md) 0 MAX_RETRIES))
       (\<lambda>metadataResponse.
          if \<not> ok metadataResponse
          then Inl (failed_with ''Failed to upload metadata to IPFS'' metadataResponse)
          else json metadataResponse)"

definition createSplitContract :: "world \<Rightarrow> string \<Rightarrow> string \<Rightarrow> thrown + string option" where
  "createSplitContract w casterWallet' minterWallet' =
     then_do (fst (fetchWithRetry (api_createSplit w (casterWallet', minterWallet')) 0 MAX_RETRIES))
       (\<lambda>splitResponse.
          if \<not> ok splitResponse
          then Inl (failed_with ''Failed to create split contract'' splitResponse)
          else json splitResponse)"

definition createToken :: "world \<Rightarrow> string option \<Rightarrow> string option \<Rightarrow> thrown + token_info" where
  "createToken w metadataUri splitAddress =
     then_do (fst (fetchWithRetry
                     (api_createToken w (NEXT_PUBLIC_CONTRACT_ADDRESS w, metadataUri, splitAddress))
                     0 MAX_RETRIES))
       (\<lambda>tokenResponse.
          if \<not> ok tokenResponse
          then Inl (failed_with ''Failed to create token'' tokenResponse)
          else json tokenResponse)"

definition zoraUrl_of :: "token_info \<Rightarrow> string" where
  "zoraUrl_of token =
     ''https://zora.co/collect/base:'' @ render (contractAddress token) @ ''/''
       @ render (tokenId token)
       @ ''?referrer=0xB70399fc376c1B3Cf3493556d2f14942323eF44f''"

text \<open>What the steps up to the creation of the token leave for the rest of the run.\<close>

record minted =
  parentAuthorUsername :: "string option"
  token :: token_info

definition mintToken :: "world \<Rightarrow> QueuedCast \<Rightarrow> thrown + minted" where
  "mintToken w d =
     then_do (minterWallet_of d) (\<lambda>minterWallet'.
     then_do (fetchParentCast w d) (\<lambda>parentCast.
     then_do (fetchCasterWallet w parentCast) (\<lambda>casterWallet'.
     then_do (createImage w d) (\<lambda>imageUri.
     then_do (uploadMetadata w
                \<lparr>md_name = ''Cast by '' @ render (pc_author_username parentCast),
                 description = pc_text parentCast,
                 image = imageUri,
                 properties = \<lparr>casterUsername = pc_author_username parentCast,
                                minterUsername = username (author d),
                                prop_castHash = parentHash d,
                                mintHash = castHash d,
                                prop_timestamp = timestamp d\<rparr>\<rparr>) (\<lambda>metadataUri.
     then_do (createSplitContract w casterWallet' minterWallet') (\<lambda>splitAddress.
     then_do (createToken w metadataUri splitAddress) (\<lambda>tok.
     Inr \<lparr>parentAuthorUsername = pc_author_username parentCast, token = tok\<rparr>)))))))"

subsection \<open>processQueueItem\<close>

definition set_status :: "string \<Rightarrow> worker_state \<Rightarrow> worker_state" where
  "set_status st s = s\<lparr>queueHealth := (queueHealth s)\<lparr>status := st\<rparr>\<rparr>"

text \<open>
  The statements of the \<^verbatim>\<open>try\<close> block after the token is created: store the minted NFT,
  mark the cast as processed, post the reply, update the health metrics. The result is the
  value thrown, if any, and the state reached when the block is left.
\<close>

definition recordAndNotify :: "world \<Rightarrow> QueuedCast \<Rightarrow> minted \<Rightarrow> worker_state \<Rightarrow> thrown option \<times> worker_state" where
  "recordAndNotify w d m s =
     (let zoraUrl = zoraUrl_of (token m)
      in case storeMintedNFT w (parentHash d) zoraUrl (parentAuthorUsername m)
                (username (author d)) (castHash d) (timestamp d)
                (contractAddress (token m)) (tokenId (token m)) (minted_casts s) of
           Inl e \<Rightarrow> (Some e, s)
         | Inr table \<Rightarrow>
             let s1 = s\<lparr>minted_casts := table\<rparr>;
                 s2 = s1\<lparr>redis := markCastAsProcessed (parentHash d) (redis s1)\<rparr>;
                 replyText = ''This cast has been minted by @'' @ username (author d)
                               @ [CHR 0x0A, CHR 0x0A] @ ''Collect here: '' @ zoraUrl;
                 post = \<lparr>post_text = replyText, post_parent = parentHash d,
                         post_embeds = [zoraUrl]\<rparr>
             in case publishCast (neynar_post w) post of
                  Some e \<Rightarrow> (Some e, s2)
                | None \<Rightarrow>
                    let s3 = s2\<lparr>published := published s2 @ [post]\<rparr>
                    in (None, set_status ''success''
                                (s3\<lparr>lastProcessedTime := Some (now w),
                                    queueHealth := (queueHealth s3)\<lparr>lastProcessed := Some (now w)\<rparr>\<rparr>)))"

definition tryBlock :: "world \<Rightarrow> QueuedCast \<Rightarrow> worker_state \<Rightarrow> thrown option \<times> worker_state" where
  "tryBlock w d s =
     (let s1 = set_status ''processing'' (s\<lparr>isProcessing := True\<rparr>)
      in case mintToken w d of
           Inl e \<Rightarrow> (Some e, s1)
         | Inr m \<Rightarrow> recordAndNotify w d m s1)"

definition catchBlock :: "world \<Rightarrow> QueuedCast \<Rightarrow> thrown \<Rightarrow> worker_state \<Rightarrow> worker_state" where
  "catchBlock w d e s =
     (let s1 = set_status ''error'' s;
          s2 = s1\<lparr>queueHealth := (queueHealth s1)\<lparr>errors := errors (queueHealth s1) @ [message_or_String e]\<rparr>\<rparr>
      in if instanceof_Error e
         then let s3 = s2\<lparr>redis := snd (addToFailedQueue (now w) d (message_or_String e) (redis s2))\<rparr>
              in s3\<lparr>queueHealth := (queueHealth s3)\<lparr>failedMintsCount := Suc (failedMintsCount (queueHealth s3))\<rparr>\<rparr>
         else s2)"

definition finallyBlock :: "worker_state \<Rightarrow> worker_state" where
  "finallyBlock s = s\<lparr>isProcessing := False, scheduled := Suc (scheduled s)\<rparr>"

definition processQueueItem :: "world \<Rightarrow> worker_state \<Rightarrow> worker_state" where
  "processQueueItem w s =
     (if isShuttingDown s then s
      else if isProcessing s then s\<lparr>scheduled := Suc (scheduled s)\<rparr>
      else case dequeueCast (redis s) of
             (None, r) \<Rightarrow>
               (set_status ''idle'' (s\<lparr>redis := r\<rparr>))
                 \<lparr>queueHealth := (queueHealth (set_status ''idle'' (s\<lparr>redis := r\<rparr>)))\<lparr>currentQueueSize := 0\<rparr>,
                  scheduled := Suc (scheduled s)\<rparr>
           | (Some d, r) \<Rightarrow>
               (case tryBlock w d (s\<lparr>redis := r\<rparr>) of
                  (None, s') \<Rightarrow> finallyBlock s'
                | (Some e, s') \<Rightarrow> finallyBlock (catchBlock w d e s')))"

subsection \<open>getHealthStatus\<close>

text \<open>
  \<open>read_failure\<close> is the value thrown by the reads of the store, if they fail. The result
  is the object returned (the health object, with an \<^verbatim>\<open>error\<close> member on a failed read)
  and the state, whose health object the function updates in place.
\<close>

definition getHealthStatus :: "thrown option \<Rightarrow> worker_state \<Rightarrow> (queueHealth_t \<times> string option) \<times> worker_state" where
  "getHealthStatus read_failure s =
     (case read_failure of
        Some e \<Rightarrow>
          ((queueHealth s, Some (if instanceof_Error e then message_or_String e else ''Unknown error'')), s)
      | None \<Rightarrow>
          let nextItem = peekQueue (redis s);
              failedMints = getFailedMints (redis s);
              h = (queueHealth s)\<lparr>currentQueueSize := (if nextItem \<noteq> None then 1 else 0),
                                   failedMintsCount := length failedMints,
                                   lastProcessed := lastProcessedTime s\<rparr>
          in ((h, None), s\<lparr>queueHealth := h\<rparr>))"

subsection \<open>The history row and the reply of a run\<close>

definition mintRecord :: "QueuedCast \<Rightarrow> minted \<Rightarrow> MintedCast" where
  "mintRecord d m =
     \<lparr>cast_hash = parentHash d, zora_url = zoraUrl_of (token m),
      caster_username = parentAuthorUsername m, minter_username = username (author d),
      mint_hash = castHash d, minted_at = timestamp d,
      contract_address = contractAddress (token m), token_id = tokenId (token m)\<rparr>"

definition reply :: "QueuedCast \<Rightarrow> minted \<Rightarrow> cast_post" where
  "reply d m =
     \<lparr>post_text = ''This cast has been minted by @'' @ username (author d)
                    @ [CHR 0x0A, CHR 0x0A] @ ''Collect here: '' @ zoraUrl_of (token m),
      post_parent = parentHash d,
      post_embeds = [zoraUrl_of (token m)]\<rparr>"

section \<open>Webhook handler (api/webhook/neynar route)\<close>

text \<open>
  The members of a \<^verbatim>\<open>cast.created\<close> event that the handler reads. The score is
  \<^verbatim>\<open>data.author.experimental?.neynar_user_score\<close>, a number taken as a real.
\<close>

record cast_created =
  ev_hash :: string
  ev_text :: string
  parent_hash :: "string option"
  ev_author :: CastAuthor
  neynar_user_score :: "real option"
  parent_author :: "CastAuthor option"
  ev_timestamp :: string

datatype payload = CastCreated cast_created | OtherEvent string

text \<open>
  A request: its headers and what \<^verbatim>\<open>JSON.parse(await request.text())\<close> gives, \<open>None\<close>
  when that throws.
\<close>

record webhook_request =
  headers :: "(string \<times> string) list"
  body :: "payload option"

definition header :: "string \<Rightarrow> webhook_request \<Rightarrow> string option" where
  "header name req = map_of (headers req) name"

text \<open>
  Outside the handler: the environment variable of the signer, how a number is printed in a
  template string, the outcome of the \<^verbatim>\<open>fetch\<close> that posts the low-score reply, and the
  value thrown by the history lookup when it fails.
\<close>

record route_env =
  NEYNAR_SIGNER_UUID :: "string option"
  print_number :: "real \<Rightarrow> string"
  post_reply :: "cast_post \<Rightarrow> thrown + unit response"
  lookup_failure :: "thrown option"

datatype webhook_response =
  Failure nat string
| Success "string option" "string option"

text \<open>
  The test \<^verbatim>\<open>/^(!mint|ok\s+banger|@edit\s+mint)$/i\<close>. \<open>two_words a b l\<close> is \<open>a\<close>, then at
  least one white space, then \<open>b\<close> up to the end; \<open>b\<close> does not begin with white space.
\<close>

definition two_words :: "string \<Rightarrow> string \<Rightarrow> string \<Rightarrow> bool" where
  "two_words a b l =
     (take (length a) l = a \<and>
      (let rest = drop (length a) l
       in strip_leading white_space rest \<noteq> rest \<and> strip_leading white_space rest = b))"

definition is_mint_command :: "string \<Rightarrow> bool" where
  "is_mint_command t =
     (let l = toLowerCase t
      in l = ''!mint'' \<or> two_words ''ok'' ''banger'' l \<or> two_words ''@edit'' ''mint'' l)"

text \<open>\<^verbatim>\<open>!userScore || userScore < 0.69\<close>\<close>

fun score_too_low :: "real option \<Rightarrow> bool" where
  "score_too_low None = True"
| "score_too_low (Some x) = (x = 0 \<or> x < 0.69)"

text \<open>The object queued, for an event with a parent hash and a parent author.\<close>

definition queueData :: "cast_created \<Rightarrow> string \<Rightarrow> CastAuthor \<Rightarrow> QueuedCast" where
  "queueData ev ph pa =
     \<lparr>castHash = ev_hash ev, parentHash = ph, cast_text = ev_text ev,
      author = ev_author ev, parentAuthor = pa, timestamp = ev_timestamp ev\<rparr>"

text \<open>
  \<^verbatim>\<open>POST\<close>. The result is the response, the store after the call and the casts the
  handler posted. No header of the request is read.
\<close>

definition neynar_POST ::
  "route_env \<Rightarrow> webhook_request \<Rightarrow> redis_store \<Rightarrow> MintedCast list
     \<Rightarrow> webhook_response \<times> redis_store \<times> cast_post list" where
  "neynar_POST env req r table =
     (if falsy (NEYNAR_SIGNER_UUID env) then (Failure 500 ''Server configuration error'', r, [])
      else case body req of
        None \<Rightarrow> (Failure 500 ''Error processing webhook'', r, [])
      | Some (OtherEvent t) \<Rightarrow> (Success None None, r, [])
      | Some (CastCreated ev) \<Rightarrow>
        (case parent_hash ev of
           None \<Rightarrow> (Success (Some ''Not a reply'') None, r, [])
         | Some parentHash' \<Rightarrow>
          if parentHash' = [] then (Success (Some ''Not a reply'') None, r, [])
          else if \<not> is_mint_command (trim (ev_text ev))
          then (Success (Some ''Not a mint command'') None, r, [])
          else if score_too_low (neynar_user_score ev)
          then (Success (Some ''User score too low'') None, r,
                let post = \<lparr>post_text = ''Sorry, your Neynar user score (''
                              @ print_number env (case neynar_user_score ev of None \<Rightarrow> 0 | Some x \<Rightarrow> x)
                              @ '') is too low to mint. A minimum score of 0.69 is required.'',
                            post_parent = ev_hash ev, post_embeds = []\<rparr>
                in case publishCast (post_reply env) post of
                     Some e \<Rightarrow> []
                   | None \<Rightarrow> [post])
          else case parent_author ev of
            None \<Rightarrow> (Failure 400 ''Parent cast data not found'', r, [])
          | Some pa \<Rightarrow>
              if isCastProcessed parentHash' r
              then (Success (Some ''Cast already processed'') None, r, [])
              else case lookup_failure env of
                Some e \<Rightarrow> (Failure 500 ''Failed to process mint command'', r, [])
              | None \<Rightarrow>
                  (case getMintingDetails parentHash' table of
                     Some existingMint \<Rightarrow>
                       (Success (Some ''Returned existing mint'') (Some (minter_username existingMint)),
                        r, [])
                   | None \<Rightarrow>
                       (Success (Some ''Cast queued for minting'') None,
                        snd (enqueueCast (queueData ev parentHash' pa) r), []))))"

section \<open>Example inputs\<close>

text \<open>Concrete requests, stores and outcomes of the remote services, used to run the definitions.\<close>

definition example_caster :: string where
  "example_caster = ''0xAbCdEF0123456789abcdef0123456789ABCDEF01''"

definition example_minter :: string where
  "example_minter =
     [CHR 0xC2, CHR 0xA0] @ '' 0x1111111111111111111111111111111111111111'' @ [CHR 0x0A]"

definition example_env :: splits_env where
  "example_env =
     \<lparr>predictAddress = (\<lambda>cfg. if length (recipients cfg) = 2
                                then ''0x2222222222222222222222222222222222222222''
                                else ''0x3333333333333333333333333333333333333333''),
      predict_failure = None,
      factory_address = ''0x4444444444444444444444444444444444444444'',
      callData_failure = None,
      sendTransaction_result = Inr ''0xaa'',
      receipt_result = Inr (''0xaa'', True)\<rparr>"

definition example_request :: CreateSplitRequest where
  "example_request = \<lparr>casterWallet = Str example_caster, minterWallet = Str example_minter\<rparr>"

definition example_config :: splits_config where
  "example_config = splitsConfig ''0xabcdef0123456789abcdef0123456789abcdef01''
                                 ''0x1111111111111111111111111111111111111111''"

definition chain_after :: chain where
  "chain_after =
     \<lparr>existing_splits = {''0x3333333333333333333333333333333333333333''},
      submitted = [\<lparr>tx_to = ''0x4444444444444444444444444444444444444444'',
                    tx_data = example_config, tx_value = 0\<rparr>]\<rparr>"

definition example_cast :: QueuedCast where
  "example_cast =
     \<lparr>castHash = ''0xr1'', parentHash = ''0xabc'', cast_text = ''!mint'',
      author = \<lparr>username = ''alice'', fid = 7,
                 eth_addresses = Some [''0x1111111111111111111111111111111111111111'']\<rparr>,
      parentAuthor = \<lparr>username = ''bob'', fid = 9, eth_addresses = None\<rparr>,
      timestamp = ''2024-02-18T10:00:00.000Z''\<rparr>"

definition respond :: "'a \<Rightarrow> 'a response call" where
  "respond x = Settles 120 (Inr \<lparr>ok = True, resp_status = 200, body_text = [],
                                   failure = Member None, json = Inr x\<rparr>)"

text \<open>Every remote service answers, the history store accepts the row, the reply is posted.\<close>

definition ok_world :: world where
  "ok_world =
     \<lparr>now = ''2024-02-18T10:00:05.000Z'',
      NEXT_PUBLIC_CONTRACT_ADDRESS = ''0x5555555555555555555555555555555555555555'',
      neynar_cast = (\<lambda>h k. respond (Some \<lparr>pc_author_fid = Some 9,
                                                pc_author_username = Some ''bob'',
                                                pc_text = Some ''gm''\<rparr>)),
      neynar_user = (\<lambda>f k. respond [\<lparr>username = ''bob'', fid = 9,
                                         eth_addresses = Some [''0xAbCdEF0123456789abcdef0123456789ABCDEF01'']\<rparr>]),
      api_createImage = (\<lambda>h k. respond (Some ''ipfs://image'')),
      api_ipfs = (\<lambda>md k. respond (Some ''ipfs://metadata'')),
      api_createSplit = (\<lambda>p k. respond (Some ''0x3333333333333333333333333333333333333333'')),
      api_createToken = (\<lambda>p k. respond \<lparr>contractAddress = Some ''0x5555555555555555555555555555555555555555'',
                                              tokenId = Some ''12''\<rparr>),
      supabase_insert = (\<lambda>row. None),
      neynar_post = (\<lambda>p. Inr \<lparr>ok = True, resp_status = 200, body_text = [],
                               failure = Member None, json = Inr ()\<rparr>)\<rparr>"

definition example_minted :: minted where
  "example_minted =
     \<lparr>parentAuthorUsername = Some ''bob'',
      token = \<lparr>contractAddress = Some ''0x5555555555555555555555555555555555555555'',
               tokenId = Some ''12''\<rparr>\<rparr>"

text \<open>The history store rejects the insert; the value it hands over is not an \<^verbatim>\<open>Error\<close>.\<close>

definition store_fails_world :: world where
  "store_fails_world = ok_world\<lparr>supabase_insert := (\<lambda>row. Some (NonError ''[object Object]''))\<rparr>"

text \<open>The Neynar API answers the reply with status 500.\<close>

definition publish_fails_world :: world where
  "publish_fails_world =
     ok_world\<lparr>neynar_post :=
                (\<lambda>p. Inr \<lparr>ok = False, resp_status = 500, body_text = [],
                           failure = Member (Some ''Internal Server Error''),
                           json = Inr ()\<rparr>)\<rparr>"

definition idle_health :: queueHealth_t where
  "idle_health = \<lparr>status = ''idle'', lastProcessed = None, currentQueueSize = 0,
                  failedMintsCount = 0, errors = []\<rparr>"

text \<open>A worker at rest with the given pending list, nothing failed and nothing processed.\<close>

definition worker_with :: "QueuedCast list \<Rightarrow> worker_state" where
  "worker_with q =
     \<lparr>isProcessing = False, isShuttingDown = False, lastProcessedTime = None,
      queueHealth = idle_health,
      redis = \<lparr>mint_queue = q, failed_mint_queue = [], processed_casts = {}\<rparr>,
      minted_casts = [], published = [], scheduled = 0\<rparr>"

text \<open>A queued cast whose author has no verified address.\<close>

definition cast_without_wallet :: QueuedCast where
  "cast_without_wallet =
     example_cast\<lparr>castHash := ''0xr2'',
                  author := \<lparr>username = ''carol'', fid = 8, eth_addresses = None\<rparr>\<rparr>"

text \<open>
  A webhook request without any header: a reply \<^verbatim>\<open>!mint\<close> to the cast \<^verbatim>\<open>0xabc\<close> by a
  user whose score passes.
\<close>

definition unsigned_request :: webhook_request where
  "unsigned_request =
     \<lparr>headers = [],
      body = Some (CastCreated
               \<lparr>ev_hash = ''0xr1'', ev_text = ''!mint'', parent_hash = Some ''0xabc'',
                ev_author = author example_cast, neynar_user_score = Some 0.9,
                parent_author = Some (parentAuthor example_cast),
                ev_timestamp = ''2024-02-18T10:00:00.000Z''\<rparr>)\<rparr>"

definition example_route_env :: route_env where
  "example_route_env =
     \<lparr>NEYNAR_SIGNER_UUID = Some ''signer'', print_number = (\<lambda>x. ''0''),
      post_reply = neynar_post ok_world, lookup_failure = None\<rparr>"

section \<open>First-in-first-out order\<close>

lemma mint_queue_enqueueCast: "mint_queue (snd (enqueueCast d r)) = d # mint_queue r"
  by (simp add: enqueueCast_def lPush_def)

lemma dequeueCast_empty: "mint_queue r = [] \<Longrightarrow> dequeueCast r = (None, r)"
  by (simp add: dequeueCast_def rPop_def)

lemma dequeueCast_nonempty:
  "mint_queue r \<noteq> [] \<Longrightarrow>
   dequeueCast r = (Some (last (mint_queue r)), r\<lparr>mint_queue := butlast (mint_queue r)\<rparr>)"
  by (simp add: dequeueCast_def rPop_def)

lemma run_ops_arrival_order:
  "snd (run_ops r ops) @ rev (mint_queue (fst (run_ops r ops))) = rev (mint_queue r) @ enqueued ops"
proof (induction r ops rule: run_ops.induct)
  case (1 r)
  show ?case by simp
next
  case (2 r d ops)
  then show ?case by (simp add: mint_queue_enqueueCast)
next
  case (3 r ops)
  show ?case
  proof (cases "mint_queue r = []")
    case True
    with 3 show ?thesis by (simp add: dequeueCast_empty)
  next
    case False
    then have deq: "dequeueCast r = (Some (last (mint_queue r)), r\<lparr>mint_queue := butlast (mint_queue r)\<rparr>)"
      by (rule dequeueCast_nonempty)
    from False have split: "rev (mint_queue r) = last (mint_queue r) # rev (butlast (mint_queue r))"
      by (metis append_butlast_last_id rev_singleton_conv rev_append append_Cons append_Nil)
    from 3(2)[OF deq[symmetric] refl] show ?thesis
      by (auto simp add: deq split split: prod.splits)
  qed
qed

text \<open>
  C5. The pending list is first-in-first-out: \<^verbatim>\<open>enqueueCast\<close> inserts at the head of the
  list and \<^verbatim>\<open>dequeueCast\<close> removes from the tail, so after any interleaving of enqueues and
  dequeues the items returned by the dequeues, followed by the items still pending read from
  the tail, are exactly the items in the order they arrived; the dequeued items are therefore
  a prefix of the arrival order, and an item enqueued earlier is dequeued earlier.
\<close>

theorem queue_fifo:
  "mint_queue (snd (enqueueCast d r)) = d # mint_queue r
   \<and> fst (dequeueCast (r\<lparr>mint_queue := q @ [d]\<rparr>)) = Some d
   \<and> mint_queue (snd (dequeueCast (r\<lparr>mint_queue := q @ [d]\<rparr>))) = q
   \<and> snd (run_ops r ops) @ rev (mint_queue (fst (run_ops r ops))) = rev (mint_queue r) @ enqueued ops
   \<and> prefix (snd (run_ops r ops)) (rev (mint_queue r) @ enqueued ops)"
proof -
  have a: "snd (run_ops r ops) @ rev (mint_queue (fst (run_ops r ops))) = rev (mint_queue r) @ enqueued ops"
    by (rule run_ops_arrival_order)
  have b: "prefix (snd (run_ops r ops)) (rev (mint_queue r) @ enqueued ops)"
    unfolding a[symmetric] by simp
  show ?thesis
    using a b by (simp add: mint_queue_enqueueCast dequeueCast_def rPop_def)
qed

section \<open>The signature check on a signature of the wrong length\<close>

lemma length_to_hex: "length (to_hex k n) = k"
  by (induction k arbitrary: n) simp_all

lemma length_digest_hex: "length (digest_hex w) = 64"
  by (simp add: digest_hex_def length_to_hex)

text \<open>
  C10. \<^verbatim>\<open>verifyWebhookSignature\<close> does not return \<^verbatim>\<open>false\<close> on every bad signature:
  when the signature and the timestamp are present and non-empty and the byte length of the
  signature is not 64, the length of the hex HMAC-SHA256 digest it is compared with, the
  timing-safe comparison throws a \<^verbatim>\<open>RangeError\<close> and the function returns nothing. With a
  signature of 64 bytes it returns whether the signature equals the expected digest.
\<close>

theorem verifyWebhookSignature_wrong_length_throws:
  assumes "signature = Some sg" and "sg \<noteq> []" and "tstamp = Some ts" and "ts \<noteq> []"
  shows "(length sg \<noteq> 64 \<longrightarrow>
            verifyWebhookSignature hmac payload signature tstamp secret
              = Inl (ErrorObj ''RangeError'' ''Input buffers must have the same byte length''))
       \<and> (length sg = 64 \<longrightarrow>
            verifyWebhookSignature hmac payload signature tstamp secret
              = Inr (sg = digest_hex (hmac secret (ts @ ''.'' @ payload))))"
  using assms
  by (simp add: verifyWebhookSignature_def timingSafeEqual_def length_digest_hex)

lemma to_hex_zero: "to_hex k 0 = replicate k CHR ''0''"
  by (induction k) (simp_all add: replicate_append_same)

theorem verifyWebhookSignature_wrong_length_throws_witness:
  "verifyWebhookSignature (\<lambda>k m. 0) ''{}'' (Some ''sha256=abc'') (Some ''1700000000'') ''secret''
     = Inl (ErrorObj ''RangeError'' ''Input buffers must have the same byte length'')
   \<and> verifyWebhookSignature (\<lambda>k m. 0) ''{}'' (Some (replicate 64 CHR ''0''))
         (Some ''1700000000'') ''secret'' = Inr True"
  using verifyWebhookSignature_wrong_length_throws
          [of "Some ''sha256=abc''" "''sha256=abc''" "Some ''1700000000''" "''1700000000''"
              "\<lambda>k m. 0" "''{}''" "''secret''"]
        verifyWebhookSignature_wrong_length_throws
          [of "Some (replicate 64 CHR ''0'')" "replicate 64 CHR ''0''" "Some ''1700000000''"
              "''1700000000''" "\<lambda>k m. 0" "''{}''" "''secret''"]
  by (simp add: digest_hex_def to_hex_zero)

section \<open>Split percentages\<close>

lemma lower_char_idem: "lower_char (lower_char c) = lower_char c"
  by (simp add: lower_char_def)

lemma toLowerCase_idem: "toLowerCase (toLowerCase s) = toLowerCase s"
  by (simp add: toLowerCase_def lower_char_idem)

lemma lower_char_cases: "lower_char x = x \<or> (x \<in> set letters \<and> lower_char x \<in> set letters)"
  unfolding lower_char_def letters_def by simp

lemma lower_char_neutral: "c \<notin> set letters \<Longrightarrow> (lower_char x = c) = (x = c)"
  using lower_char_cases[of x] lower_char_cases[of c] by auto

lemma prefix_toLowerCase:
  "list_all (\<lambda>c. c \<notin> set letters) w \<Longrightarrow> prefix w (toLowerCase s) = prefix w s"
proof (induction w arbitrary: s)
  case Nil
  show ?case by simp
next
  case (Cons c w)
  show ?case
  proof (cases s)
    case Nil
    then show ?thesis by (simp add: toLowerCase_def)
  next
    case (Cons x xs)
    from Cons.prems have c: "c \<notin> set letters" and w: "list_all (\<lambda>c. c \<notin> set letters) w"
      by simp_all
    have "prefix w (toLowerCase xs) = prefix w xs" by (rule Cons.IH[OF w])
    then show ?thesis
      using lower_char_neutral[OF c, of x] by (auto simp: Cons toLowerCase_def)
  qed
qed

text \<open>Stripping sequences without letters commutes with the change of case.\<close>

lemma strip_leading_toLowerCase:
  "list_all (list_all (\<lambda>c. c \<notin> set letters)) ws \<Longrightarrow>
   strip_leading ws (toLowerCase s) = toLowerCase (strip_leading ws s)"
proof (induction ws s rule: strip_leading.induct)
  case (1 ws s)
  have same: "filter (\<lambda>w. w \<noteq> [] \<and> prefix w (toLowerCase s)) ws
                = filter (\<lambda>w. w \<noteq> [] \<and> prefix w s) ws"
    using 1(2) by (intro filter_cong refl) (auto simp: list_all_iff prefix_toLowerCase)
  show ?case
  proof (cases "filter (\<lambda>w. w \<noteq> [] \<and> prefix w s) ws")
    case Nil
    then show ?thesis
      using same
      by (simp add: strip_leading.simps[of ws s] strip_leading.simps[of ws "toLowerCase s"])
  next
    case (Cons w rest)
    have ih: "strip_leading ws (toLowerCase (drop (length w) s))
                = toLowerCase (strip_leading ws (drop (length w) s))"
      by (rule 1(1)[OF Cons 1(2)])
    have l: "strip_leading ws (toLowerCase s) = strip_leading ws (drop (length w) (toLowerCase s))"
      using same Cons by (simp add: strip_leading.simps[of ws "toLowerCase s"])
    have r: "strip_leading ws s = strip_leading ws (drop (length w) s)"
      using Cons by (simp add: strip_leading.simps[of ws s])
    have d: "drop (length w) (toLowerCase s) = toLowerCase (drop (length w) s)"
      by (simp add: toLowerCase_def drop_map)
    show ?thesis by (simp only: l r d ih)
  qed
qed

lemma white_space_neutral: "list_all (list_all (\<lambda>c. c \<notin> set letters)) white_space"
  by (simp add: white_space_def letters_def)

lemma white_space_rev_neutral: "list_all (list_all (\<lambda>c. c \<notin> set letters)) (map rev white_space)"
  by (simp add: white_space_def letters_def)

lemma rev_toLowerCase: "rev (toLowerCase s) = toLowerCase (rev s)"
  by (simp add: toLowerCase_def rev_map)

lemma toLowerCase_trim: "toLowerCase (trim s) = trim (toLowerCase s)"
proof -
  have "trim (toLowerCase s)
          = rev (strip_leading (map rev white_space) (toLowerCase (rev (strip_leading white_space s))))"
    by (simp only: trim_def strip_leading_toLowerCase[OF white_space_neutral] rev_toLowerCase)
  also have "\<dots> = toLowerCase (rev (strip_leading (map rev white_space)
                                      (rev (strip_leading white_space s))))"
    by (simp only: strip_leading_toLowerCase[OF white_space_rev_neutral] rev_toLowerCase)
  finally show ?thesis by (simp only: trim_def)
qed

lemma validateAndConvertAddress_Inr:
  "validateAndConvertAddress w = Inr a \<Longrightarrow>
   \<exists>s. w = Str s \<and> a = toLowerCase (trim s) \<and> is_hex_address a"
  by (cases w) (auto simp: Let_def split: if_splits)

lemma validateRequest_Inr:
  assumes "validateRequest data = Inr (ca, ma)"
  shows "validateAndConvertAddress (casterWallet data) = Inr ca"
    and "validateAndConvertAddress (minterWallet data) = Inr ma"
  using assms by (auto simp: validateRequest_def split: if_splits sum.splits)

lemma validated_lower:
  assumes "validateAndConvertAddress w = Inr a"
  shows "toLowerCase a = a"
proof -
  from validateAndConvertAddress_Inr[OF assms] obtain s where "a = toLowerCase (trim s)"
    by blast
  then show ?thesis by (simp add: toLowerCase_idem)
qed

text \<open>
  C7. Given caster and minter wallet strings that pass validation, the handler builds the
  split from the validated (trimmed, lower-cased) addresses with the fixed percentages
  caster 50, minter 5, platform 45 when the two validated addresses differ; when the two
  wallets are equal ignoring case it builds exactly two recipients, the caster with 55
  (50 + 5) and the platform wallet with 45. The distributor fee is 0.
\<close>

theorem split_shares:
  assumes "validateRequest \<lparr>casterWallet = Str c, minterWallet = Str m\<rparr> = Inr (ca, ma)"
  shows "ca = toLowerCase (trim c) \<and> ma = toLowerCase (trim m)
       \<and> distributorFeePercent (splitsConfig ca ma) = 0
       \<and> (ca \<noteq> ma \<longrightarrow>
            recipients (splitsConfig ca ma) =
              [\<lparr>address = ca, percentAllocation = 50\<rparr>,
               \<lparr>address = ma, percentAllocation = 5\<rparr>,
               \<lparr>address = EDITMINT_WALLET, percentAllocation = 45\<rparr>])
       \<and> (toLowerCase c = toLowerCase m \<longrightarrow>
            length (recipients (splitsConfig ca ma)) = 2 \<and>
            recipients (splitsConfig ca ma) =
              [\<lparr>address = ca, percentAllocation = 55\<rparr>,
               \<lparr>address = EDITMINT_WALLET, percentAllocation = 45\<rparr>])"
proof -
  from validateRequest_Inr[OF assms]
  have vc: "validateAndConvertAddress (Str c) = Inr ca"
    and vm: "validateAndConvertAddress (Str m) = Inr ma" by simp_all
  from validateAndConvertAddress_Inr[OF vc] have ca: "ca = toLowerCase (trim c)" by auto
  from validateAndConvertAddress_Inr[OF vm] have ma: "ma = toLowerCase (trim m)" by auto
  have lc: "toLowerCase ca = ca" and lm: "toLowerCase ma = ma"
    using validated_lower[OF vc] validated_lower[OF vm] by simp_all
  have same: "isSameAddress ca ma = (ca = ma)"
    by (simp add: isSameAddress_def lc lm)
  have eq: "ca = ma" if "toLowerCase c = toLowerCase m"
    using that by (simp add: ca ma toLowerCase_trim)
  have fee: "distributorFeePercent (splitsConfig ca ma) = 0"
    by (simp add: splitsConfig_def)
  have three: "recipients (splitsConfig ca ma) =
              [\<lparr>address = ca, percentAllocation = 50\<rparr>,
               \<lparr>address = ma, percentAllocation = 5\<rparr>,
               \<lparr>address = EDITMINT_WALLET, percentAllocation = 45\<rparr>]" if "ca \<noteq> ma"
    using that
    by (simp add: splitsConfig_def same CASTER_SHARE_def MINTER_SHARE_def PLATFORM_SHARE_def)
  have two: "recipients (splitsConfig ca ma) =
              [\<lparr>address = ca, percentAllocation = 55\<rparr>,
               \<lparr>address = EDITMINT_WALLET, percentAllocation = 45\<rparr>]"
    if "toLowerCase c = toLowerCase m"
    using eq[OF that]
    by (simp add: splitsConfig_def isSameAddress_def CASTER_SHARE_def MINTER_SHARE_def
          PLATFORM_SHARE_def)
  show ?thesis
    using ca ma fee three two by (metis length_Cons list.size(3) numeral_2_eq_2)
qed

lemma example_validateRequest:
  "validateRequest \<lparr>casterWallet = Str example_caster, minterWallet = Str example_minter\<rparr>
     = Inr (''0xabcdef0123456789abcdef0123456789abcdef01'',
            ''0x1111111111111111111111111111111111111111'')"
  by (simp add: validateRequest_def example_caster_def example_minter_def toLowerCase_def
        trim_def strip_leading.simps white_space_def lower_char_def is_hex_address_def)

lemma example_validateRequest_same:
  "validateRequest \<lparr>casterWallet = Str example_caster,
                    minterWallet = Str ''0xabcdef0123456789ABCDEF0123456789abcdef01''\<rparr>
     = Inr (''0xabcdef0123456789abcdef0123456789abcdef01'',
            ''0xabcdef0123456789abcdef0123456789abcdef01'')"
  by (simp add: validateRequest_def example_caster_def toLowerCase_def
        trim_def strip_leading.simps white_space_def lower_char_def is_hex_address_def)

theorem split_shares_witness:
  "recipients (splitsConfig ''0xabcdef0123456789abcdef0123456789abcdef01''
                            ''0x1111111111111111111111111111111111111111'') =
     [\<lparr>address = ''0xabcdef0123456789abcdef0123456789abcdef01'', percentAllocation = 50\<rparr>,
      \<lparr>address = ''0x1111111111111111111111111111111111111111'', percentAllocation = 5\<rparr>,
      \<lparr>address = EDITMINT_WALLET, percentAllocation = 45\<rparr>]
   \<and> recipients (splitsConfig ''0xabcdef0123456789abcdef0123456789abcdef01''
                              ''0xabcdef0123456789abcdef0123456789abcdef01'') =
     [\<lparr>address = ''0xabcdef0123456789abcdef0123456789abcdef01'', percentAllocation = 55\<rparr>,
      \<lparr>address = EDITMINT_WALLET, percentAllocation = 45\<rparr>]"
proof -
  have lc: "toLowerCase example_caster = toLowerCase ''0xabcdef0123456789ABCDEF0123456789abcdef01''"
    by (simp add: example_caster_def toLowerCase_def lower_char_def)
  note differ = split_shares[OF example_validateRequest,
                   THEN conjunct2, THEN conjunct2, THEN conjunct2, THEN conjunct1]
  note same = split_shares[OF example_validateRequest_same,
                 THEN conjunct2, THEN conjunct2, THEN conjunct2, THEN conjunct2]
  show ?thesis
    using differ same lc by simp
qed

section \<open>Split resolution\<close>

lemma resolveSplit_address:
  "fst (resolveSplit env cfg c) = Inr (a, t) \<Longrightarrow> a = predictAddress env cfg"
  by (auto simp: resolveSplit_def Let_def split: option.splits sum.splits if_splits prod.splits)

lemma resolveSplit_existing:
  "predict_failure env = None \<Longrightarrow> predictAddress env cfg \<in> existing_splits c \<Longrightarrow>
   resolveSplit env cfg c = (Inr (predictAddress env cfg, None), c)"
  by (simp add: resolveSplit_def)

text \<open>
  C8. Resolving the split is idempotent. For one request body, whatever the state of the
  chain and the outcome of the remote calls, two successful runs of the handler (against the
  same address derivation of the SDK) answer with the same split address; when the split
  of that configuration already exists on the chain, the handler answers with that address,
  no transaction hash, and submits no transaction: the chain, including the list of
  submitted transactions, is unchanged. So a second run, made after a first run whose split
  exists on the chain it left, gives the answer of the first run without a transaction hash
  and leaves that chain as it is.
\<close>

theorem split_resolution_idempotent:
  "(createSplit_POST env data c = (Created r1, c1) \<and>
    createSplit_POST env' data c' = (Created r2, c2) \<and>
    predictAddress env' = predictAddress env
      \<longrightarrow> split_address r2 = split_address r1)
   \<and> (validateRequest data = Inr (ca, ma) \<and> predict_failure env = None \<and>
      predictAddress env (splitsConfig ca ma) \<in> existing_splits c
      \<longrightarrow> createSplit_POST env data c =
            (Created \<lparr>split_address = predictAddress env (splitsConfig ca ma),
                      transactionHash = None,
                      shares = shares_of (isSameAddress ca ma)\<rparr>, c))
   \<and> (createSplit_POST env data c = (Created r1, c1) \<and>
      split_address r1 \<in> existing_splits c1 \<and>
      predict_failure env' = None \<and> predictAddress env' = predictAddress env
      \<longrightarrow> createSplit_POST env' data c1 = (Created (r1\<lparr>transactionHash := None\<rparr>), c1))"
proof -
  have addr: "split_address r = predictAddress e (splitsConfig x y)"
    if "createSplit_POST e data k = (Created r, k')" and "validateRequest data = Inr (x, y)"
    for e k k' r x y
  proof -
    from that obtain t where "fst (resolveSplit e (splitsConfig x y) k) = Inr (split_address r, t)"
      by (auto simp: createSplit_POST_def error_response_def split: sum.splits prod.splits)
    then show ?thesis by (rule resolveSplit_address)
  qed
  have valid: "\<exists>x y. validateRequest data = Inr (x, y)"
    if "createSplit_POST e data k = (Created r, k')" for e k k' r
    using that by (auto simp: createSplit_POST_def error_response_def split: sum.splits prod.splits)
  have first: "split_address r2 = split_address r1"
    if "createSplit_POST env data c = (Created r1, c1)"
      and "createSplit_POST env' data c' = (Created r2, c2)"
      and "predictAddress env' = predictAddress env"
  proof -
    from valid[OF that(1)] obtain x y where v: "validateRequest data = Inr (x, y)" by blast
    show ?thesis using addr[OF that(1) v] addr[OF that(2) v] that(3) by simp
  qed
  have second: "createSplit_POST e data k =
            (Created \<lparr>split_address = predictAddress e (splitsConfig x y),
                      transactionHash = None,
                      shares = shares_of (isSameAddress x y)\<rparr>, k)"
    if "validateRequest data = Inr (x, y)" and "predict_failure e = None"
      and "predictAddress e (splitsConfig x y) \<in> existing_splits k" for e k x y
    using that by (simp add: createSplit_POST_def resolveSplit_existing)
  have third: "createSplit_POST env' data c1 = (Created (r1\<lparr>transactionHash := None\<rparr>), c1)"
    if run: "createSplit_POST env data c = (Created r1, c1)"
      and ex: "split_address r1 \<in> existing_splits c1"
      and nf: "predict_failure env' = None" and same: "predictAddress env' = predictAddress env"
  proof -
    from valid[OF run] obtain x y where v: "validateRequest data = Inr (x, y)" by blast
    have a: "split_address r1 = predictAddress env (splitsConfig x y)"
      by (rule addr[OF run v])
    have sh: "shares r1 = shares_of (isSameAddress x y)"
      using run v
      by (auto simp: createSplit_POST_def error_response_def split: sum.splits prod.splits)
    have "createSplit_POST env' data c1 =
            (Created \<lparr>split_address = predictAddress env' (splitsConfig x y),
                      transactionHash = None,
                      shares = shares_of (isSameAddress x y)\<rparr>, c1)"
      using second[OF v nf] ex a same by simp
    moreover have "r1\<lparr>transactionHash := None\<rparr> =
            \<lparr>split_address = predictAddress env' (splitsConfig x y),
             transactionHash = None,
             shares = shares_of (isSameAddress x y)\<rparr>"
      using a sh same by (cases r1) simp
    ultimately show ?thesis by simp
  qed
  show ?thesis using first second[of ca ma env c] third by blast
qed

lemma example_recipients: "length (recipients example_config) = 3"
  by (simp add: example_config_def splitsConfig_def isSameAddress_def toLowerCase_def lower_char_def)

lemma example_not_same:
  "\<not> isSameAddress ''0xabcdef0123456789abcdef0123456789abcdef01''
                      ''0x1111111111111111111111111111111111111111''"
  by (simp add: isSameAddress_def toLowerCase_def lower_char_def)

lemma example_first_run:
  "createSplit_POST example_env example_request \<lparr>existing_splits = {}, submitted = []\<rparr> =
     (Created \<lparr>split_address = ''0x3333333333333333333333333333333333333333'',
               transactionHash = Some ''0xaa'',
               shares = [(''caster'', ''50%''), (''minter'', ''5%''), (''platform'', ''45%'')]\<rparr>,
      chain_after)"
  using example_validateRequest example_recipients example_not_same
  by (simp add: createSplit_POST_def example_request_def resolveSplit_def example_env_def
        example_config_def[symmetric] chain_after_def shares_of_def show_nat.simps Let_def
        CASTER_SHARE_def MINTER_SHARE_def PLATFORM_SHARE_def)

theorem split_resolution_idempotent_witness:
  "createSplit_POST example_env example_request chain_after =
     (Created \<lparr>split_address = ''0x3333333333333333333333333333333333333333'',
               transactionHash = None,
               shares = [(''caster'', ''50%''), (''minter'', ''5%''), (''platform'', ''45%'')]\<rparr>,
      chain_after)
   \<and> split_address (case fst (createSplit_POST example_env example_request chain_after) of
                       Created r \<Rightarrow> r) =
     split_address (case fst (createSplit_POST example_env example_request
                                \<lparr>existing_splits = {}, submitted = []\<rparr>) of Created r \<Rightarrow> r)"
proof -
  have v: "validateRequest example_request =
             Inr (''0xabcdef0123456789abcdef0123456789abcdef01'',
                  ''0x1111111111111111111111111111111111111111'')"
    using example_validateRequest by (simp add: example_request_def)
  have nf: "predict_failure example_env = None"
    by (simp add: example_env_def)
  have ex: "predictAddress example_env
              (splitsConfig ''0xabcdef0123456789abcdef0123456789abcdef01''
                            ''0x1111111111111111111111111111111111111111'')
            \<in> existing_splits chain_after"
    using example_recipients
    by (simp add: example_env_def chain_after_def example_config_def[symmetric])
  have pa: "predictAddress example_env
              (splitsConfig ''0xabcdef0123456789abcdef0123456789abcdef01''
                            ''0x1111111111111111111111111111111111111111'')
            = ''0x3333333333333333333333333333333333333333''"
    using example_recipients
    by (simp add: example_env_def example_config_def[symmetric])
  have sh: "shares_of False = [(''caster'', ''50%''), (''minter'', ''5%''), (''platform'', ''45%'')]"
    by (simp add: shares_of_def show_nat.simps CASTER_SHARE_def MINTER_SHARE_def PLATFORM_SHARE_def)
  note reuse = split_resolution_idempotent
               [where env = example_env and data = example_request and c = chain_after
                  and ca = "''0xabcdef0123456789abcdef0123456789abcdef01''"
                  and ma = "''0x1111111111111111111111111111111111111111''"]
  note twice = split_resolution_idempotent
               [where env = example_env and data = example_request
                  and c = "\<lparr>existing_splits = {}, submitted = []\<rparr>"
                  and env' = example_env and c' = chain_after]
  from reuse[THEN conjunct2, THEN conjunct1, THEN mp, OF conjI[OF v conjI[OF nf ex]]]
  have second: "createSplit_POST example_env example_request chain_after =
     (Created \<lparr>split_address = ''0x3333333333333333333333333333333333333333'',
               transactionHash = None,
               shares = [(''caster'', ''50%''), (''minter'', ''5%''), (''platform'', ''45%'')]\<rparr>,
      chain_after)"
    using example_not_same by (simp add: pa sh)
  from twice[THEN conjunct1, THEN mp, OF conjI[OF example_first_run conjI[OF second refl]]]
    second example_first_run
  show ?thesis by simp
qed

section \<open>Timeouts and retries\<close>

lemma fetchWithRetry_calls: "snd (fetchWithRetry fetch k retries) \<le> Suc (k + retries)"
proof (induction retries arbitrary: k)
  case 0
  show ?case
    by (simp add: fetchWithRetry.simps[of fetch k 0] split: sum.splits)
next
  case (Suc n)
  have "snd (fetchWithRetry fetch (Suc k) n) \<le> Suc (Suc k + n)" by (rule Suc.IH)
  then show ?case
    by (simp add: fetchWithRetry.simps[of fetch k "Suc n"] split: sum.splits)
qed

text \<open>
  C6, on the claim as stated. The first call to a url hangs and is aborted by the timer; a
  second call would be answered at once. The claim has the timeout retried;
  \<^verbatim>\<open>fetchWithRetry\<close> with all \<^verbatim>\<open>MAX_RETRIES\<close> retries left makes one call and throws the
  \<^verbatim>\<open>AbortError\<close>.
\<close>

theorem fetchWithRetry_timeout_counterexample:
  "fetchWithRetry (\<lambda>k. if k = 0 then Hangs else Settles 10 (Inr ''pong'')) 0 MAX_RETRIES
     = (Inl AbortError, 1)"
  by (simp add: fetchWithRetry.simps[of _ 0] AbortError_def)

text \<open>
  C6, amended. A call that has not settled within \<^verbatim>\<open>API_TIMEOUT\<close> milliseconds is aborted
  and surfaces an \<^verbatim>\<open>AbortError\<close>, which is distinct from the error of a transport failure.
  The timeout is not retried: \<^verbatim>\<open>fetchWithRetry\<close> throws it after that one call, whatever
  number of retries is left, and so it does with a rejection that is not an instance of
  \<^verbatim>\<open>Error\<close> and with any rejection when no retry is left. A rejection is retried exactly
  when it is an \<^verbatim>\<open>Error\<close> with a name other than \<^verbatim>\<open>AbortError\<close> and a retry is left;
  a response is returned as it is. At most \<open>retries + 1\<close> calls are made.
\<close>

theorem fetchWithRetry_timeout_not_retried:
  "fetch_with_signal (Hangs :: 'a call) = Inl AbortError
   \<and> (API_TIMEOUT < t \<longrightarrow> fetch_with_signal (Settles t (r :: thrown + 'a)) = Inl AbortError)
   \<and> AbortError \<noteq> transport_failure
   \<and> error_name AbortError = Some ''AbortError''
   \<and> (fetch_with_signal (fetch k) = Inl e \<and>
      (error_name e = Some ''AbortError'' \<or> \<not> instanceof_Error e \<or> retries = 0) \<longrightarrow>
        fetchWithRetry fetch k retries = (Inl e, Suc k))
   \<and> (fetch_with_signal (fetch k) = Inl e \<and> instanceof_Error e \<and>
      error_name e \<noteq> Some ''AbortError'' \<and> retries > 0 \<longrightarrow>
        fetchWithRetry fetch k retries = fetchWithRetry fetch (Suc k) (retries - 1))
   \<and> (fetch_with_signal (fetch k) = Inr x \<longrightarrow>
        fetchWithRetry fetch k retries = (Inr x, Suc k))
   \<and> snd (fetchWithRetry fetch k retries) \<le> Suc (k + retries)"
proof -
  have a: "fetchWithRetry fetch k retries = (Inl e, Suc k)"
    if "fetch_with_signal (fetch k) = Inl e"
       "error_name e = Some ''AbortError'' \<or> \<not> instanceof_Error e \<or> retries = 0"
    using that by (auto simp: fetchWithRetry.simps[of fetch k retries])
  have b: "fetchWithRetry fetch k retries = fetchWithRetry fetch (Suc k) (retries - 1)"
    if "fetch_with_signal (fetch k) = Inl e" "instanceof_Error e"
       "error_name e \<noteq> Some ''AbortError''" "retries > 0"
    using that by (simp add: fetchWithRetry.simps[of fetch k retries])
  have c: "AbortError \<noteq> transport_failure" "error_name AbortError = Some ''AbortError''"
    by (simp_all add: AbortError_def transport_failure_def)
  have d: "fetchWithRetry fetch k retries = (Inr x, Suc k)"
    if "fetch_with_signal (fetch k) = Inr x"
    using that by (simp add: fetchWithRetry.simps[of fetch k retries])
  have t: "fetch_with_signal (Settles t r) = Inl AbortError" if "API_TIMEOUT < t"
    using that by simp
  show ?thesis
    using a b c d t fetchWithRetry_calls[of fetch k retries] by simp
qed

theorem fetchWithRetry_timeout_not_retried_witness:
  "fetch_with_signal (Settles 45000 (Inr ''late'')) = Inl AbortError
   \<and> fetchWithRetry (\<lambda>k. if k = 0 then Settles 45000 (Inr ''late'') else Settles 10 (Inr ''pong''))
         0 3 = (Inl AbortError, 1)
   \<and> fetchWithRetry (\<lambda>k. if k = 0 then Settles 5 (Inl (NonError ''boom''))
                          else Settles 10 (Inr ''pong'')) 0 3
       = (Inl (NonError ''boom''), 1)
   \<and> fetchWithRetry (\<lambda>k. if k = 0 then Settles 5 (Inl transport_failure)
                          else Settles 10 (Inr ''pong'')) 0 3
       = (Inr ''pong'', 2)"
proof -
  let ?slow = "\<lambda>k::nat. if k = 0 then Settles 45000 (Inr ''late'') else Settles 10 (Inr ''pong'')"
  let ?odd = "\<lambda>k::nat. if k = 0 then Settles 5 (Inl (NonError ''boom''))
                         else Settles 10 (Inr ''pong'')"
  let ?flaky = "\<lambda>k::nat. if k = 0 then Settles 5 (Inl transport_failure)
                           else Settles 10 (Inr ''pong'')"
  note slow = fetchWithRetry_timeout_not_retried
                [where fetch = ?slow and k = 0 and retries = 3 and t = 45000
                   and r = "Inr ''late''" and e = AbortError]
  note odd = fetchWithRetry_timeout_not_retried
                [where fetch = ?odd and k = 0 and retries = 3 and t = 45000
                   and r = "Inr ''late''" and e = "NonError ''boom''"]
  note flaky = fetchWithRetry_timeout_not_retried
                [where fetch = ?flaky and k = 0 and retries = 3 and t = 45000
                   and r = "Inr ''late''" and e = transport_failure]
  note again = fetchWithRetry_timeout_not_retried
                [where fetch = ?flaky and k = "Suc 0" and retries = 2 and t = 45000
                   and r = "Inr ''late''" and x = "''pong''"]
  have t: "API_TIMEOUT < 45000" by (simp add: API_TIMEOUT_def)
  have s1: "fetch_with_signal (Settles 45000 (Inr ''late'' :: thrown + string)) = Inl AbortError"
    using slow t by blast
  have s0: "fetch_with_signal (?slow 0) = Inl AbortError \<and> error_name AbortError = Some ''AbortError''"
    using s1 slow by simp
  have s2: "fetchWithRetry ?slow 0 3 = (Inl AbortError, Suc 0)"
    using slow s0 by blast
  have o0: "fetch_with_signal (?odd 0) = Inl (NonError ''boom'') \<and> \<not> instanceof_Error (NonError ''boom'')"
    by (simp add: API_TIMEOUT_def)
  have o1: "fetchWithRetry ?odd 0 3 = (Inl (NonError ''boom''), Suc 0)"
    using odd o0 by blast
  have f0: "fetch_with_signal (?flaky 0) = Inl transport_failure \<and> instanceof_Error transport_failure
            \<and> error_name transport_failure \<noteq> Some ''AbortError'' \<and> (3::nat) > 0"
    by (simp add: API_TIMEOUT_def transport_failure_def)
  have f1: "fetchWithRetry ?flaky 0 3 = fetchWithRetry ?flaky (Suc 0) (3 - 1)"
    using flaky f0 by blast
  have f2: "fetch_with_signal (?flaky (Suc 0)) = Inr ''pong''"
    by (simp add: API_TIMEOUT_def)
  have f3: "fetchWithRetry ?flaky (Suc 0) 2 = (Inr ''pong'', Suc (Suc 0))"
    using again f2 by blast
  show ?thesis using s1 s2 o1 f1 f3 by simp
qed

section \<open>The worker loop\<close>

lemma recordAndNotify_store_fails:
  "supabase_insert w (mintRecord d m) = Some e \<Longrightarrow> recordAndNotify w d m s = (Some e, s)"
  by (simp add: recordAndNotify_def storeMintedNFT_def mintRecord_def Let_def)

lemma recordAndNotify_publish_fails:
  "supabase_insert w (mintRecord d m) = None \<Longrightarrow>
   publishCast (neynar_post w) (reply d m) = Some e \<Longrightarrow>
   recordAndNotify w d m s =
     (Some e, s\<lparr>minted_casts := minted_casts s @ [mintRecord d m],
                redis := markCastAsProcessed (parentHash d) (redis s)\<rparr>)"
  by (simp add: recordAndNotify_def storeMintedNFT_def mintRecord_def reply_def Let_def)

lemma recordAndNotify_ok:
  "supabase_insert w (mintRecord d m) = None \<Longrightarrow>
   publishCast (neynar_post w) (reply d m) = None \<Longrightarrow>
   recordAndNotify w d m s =
     (None, set_status ''success''
              (s\<lparr>minted_casts := minted_casts s @ [mintRecord d m],
                 redis := markCastAsProcessed (parentHash d) (redis s),
                 published := published s @ [reply d m],
                 lastProcessedTime := Some (now w),
                 queueHealth := (queueHealth s)\<lparr>lastProcessed := Some (now w)\<rparr>\<rparr>))"
  by (simp add: recordAndNotify_def storeMintedNFT_def mintRecord_def reply_def Let_def)

lemma processQueueItem_item:
  "\<not> isShuttingDown s \<Longrightarrow> \<not> isProcessing s \<Longrightarrow> dequeueCast (redis s) = (Some d, r) \<Longrightarrow>
   processQueueItem w s =
     (case tryBlock w d (s\<lparr>redis := r\<rparr>) of
        (None, s') \<Rightarrow> finallyBlock s'
      | (Some e, s') \<Rightarrow> finallyBlock (catchBlock w d e s'))"
  by (simp add: processQueueItem_def)

lemma dequeueCast_Some:
  "dequeueCast r0 = (Some d, r) \<Longrightarrow>
   mint_queue r0 \<noteq> [] \<and> d = last (mint_queue r0) \<and> r = r0\<lparr>mint_queue := butlast (mint_queue r0)\<rparr>"
  by (auto simp: dequeueCast_def rPop_def split: if_splits)

lemma processed_casts_catchBlock [simp]:
  "processed_casts (redis (catchBlock w d e s)) = processed_casts (redis s)"
  by (simp add: catchBlock_def set_status_def addToFailedQueue_def lPush_def Let_def)

lemma minted_casts_catchBlock [simp]:
  "minted_casts (catchBlock w d e s) = minted_casts s"
  by (simp add: catchBlock_def set_status_def Let_def)

lemma mint_queue_catchBlock [simp]:
  "mint_queue (redis (catchBlock w d e s)) = mint_queue (redis s)"
  by (simp add: catchBlock_def set_status_def addToFailedQueue_def lPush_def Let_def)

lemma redis_finallyBlock [simp]: "redis (finallyBlock s) = redis s"
  by (simp add: finallyBlock_def)

lemma minted_casts_finallyBlock [simp]: "minted_casts (finallyBlock s) = minted_casts s"
  by (simp add: finallyBlock_def)

lemma queueHealth_finallyBlock [simp]: "queueHealth (finallyBlock s) = queueHealth s"
  by (simp add: finallyBlock_def)

lemma tryBlock_mint_fails:
  "mintToken w d = Inl e \<Longrightarrow>
   tryBlock w d s = (Some e, set_status ''processing'' (s\<lparr>isProcessing := True\<rparr>))"
  by (simp add: tryBlock_def)

lemma tryBlock_minted:
  "mintToken w d = Inr m \<Longrightarrow>
   tryBlock w d s = recordAndNotify w d m (set_status ''processing'' (s\<lparr>isProcessing := True\<rparr>))"
  by (simp add: tryBlock_def)

text \<open>What a run of the \<^verbatim>\<open>try\<close> block leaves untouched, whatever its outcome.\<close>

lemma tryBlock_frame:
  assumes "tryBlock w d s = (x, s')"
  shows "mint_queue (redis s') = mint_queue (redis s)"
    and "failed_mint_queue (redis s') = failed_mint_queue (redis s)"
    and "errors (queueHealth s') = errors (queueHealth s)"
    and "failedMintsCount (queueHealth s') = failedMintsCount (queueHealth s)"
    and "scheduled s' = scheduled s"
proof -
  let ?s1 = "set_status ''processing'' (s\<lparr>isProcessing := True\<rparr>)"
  have all: "mint_queue (redis s') = mint_queue (redis s)
           \<and> failed_mint_queue (redis s') = failed_mint_queue (redis s)
           \<and> errors (queueHealth s') = errors (queueHealth s)
           \<and> failedMintsCount (queueHealth s') = failedMintsCount (queueHealth s)
           \<and> scheduled s' = scheduled s"
  proof (cases "mintToken w d")
    case (Inl e)
    with assms show ?thesis by (auto simp: tryBlock_mint_fails set_status_def)
  next
    case (Inr m)
    show ?thesis
    proof (cases "supabase_insert w (mintRecord d m)")
      case (Some e)
      with assms Inr show ?thesis
        by (auto simp: tryBlock_minted recordAndNotify_store_fails set_status_def)
    next
      case None
      show ?thesis
      proof (cases "publishCast (neynar_post w) (reply d m)")
        case (Some e)
        with assms Inr None show ?thesis
          by (auto simp: tryBlock_minted recordAndNotify_publish_fails set_status_def
                markCastAsProcessed_def)
      next
        case pn: None
        with assms Inr None show ?thesis
          by (auto simp: tryBlock_minted recordAndNotify_ok set_status_def markCastAsProcessed_def)
      qed
    qed
  qed
  then show "mint_queue (redis s') = mint_queue (redis s)"
    and "failed_mint_queue (redis s') = failed_mint_queue (redis s)"
    and "errors (queueHealth s') = errors (queueHealth s)"
    and "failedMintsCount (queueHealth s') = failedMintsCount (queueHealth s)"
    and "scheduled s' = scheduled s"
    by simp_all
qed

text \<open>
  C1. In a run of the worker on a dequeued item the cast is marked as processed only after
  the row of the mint has been written to the history table. If a step up to the creation of
  the token throws, or if the insert into the history table fails, the set of processed casts
  (and the history table) is as before the run. If the insert succeeds, the run ends with the
  row appended to the history table and the parent hash of the item in the set. So whenever a
  run changes the set, the history table ends with the row of that item.
\<close>

theorem dedup_marked_after_history_write:
  assumes "\<not> isShuttingDown s" and "\<not> isProcessing s"
    and "dequeueCast (redis s) = (Some d, r)"
  shows "(\<forall>e. mintToken w d = Inl e \<longrightarrow>
            processed_casts (redis (processQueueItem w s)) = processed_casts (redis s)
            \<and> minted_casts (processQueueItem w s) = minted_casts s)
       \<and> (\<forall>m e. mintToken w d = Inr m \<and> supabase_insert w (mintRecord d m) = Some e \<longrightarrow>
            processed_casts (redis (processQueueItem w s)) = processed_casts (redis s)
            \<and> minted_casts (processQueueItem w s) = minted_casts s)
       \<and> (\<forall>m. mintToken w d = Inr m \<and> supabase_insert w (mintRecord d m) = None \<longrightarrow>
            minted_casts (processQueueItem w s) = minted_casts s @ [mintRecord d m]
            \<and> processed_casts (redis (processQueueItem w s))
                = insert (parentHash d) (processed_casts (redis s)))
       \<and> (processed_casts (redis (processQueueItem w s)) \<noteq> processed_casts (redis s) \<longrightarrow>
            (\<exists>m. mintToken w d = Inr m
                \<and> minted_casts (processQueueItem w s) = minted_casts s @ [mintRecord d m]))"
proof -
  let ?s0 = "s\<lparr>redis := r\<rparr>"
  let ?s1 = "set_status ''processing'' (?s0\<lparr>isProcessing := True\<rparr>)"
  let ?P = "processed_casts (redis (processQueueItem w s))"
  let ?M = "minted_casts (processQueueItem w s)"
  note run = processQueueItem_item[OF assms, of w]
  from dequeueCast_Some[OF assms(3)] have pr: "processed_casts r = processed_casts (redis s)"
    by simp
  have A: "?P = processed_casts (redis s) \<and> ?M = minted_casts s" if "mintToken w d = Inl e" for e
    by (simp add: run tryBlock_mint_fails[OF that] set_status_def pr)
  have B: "?P = processed_casts (redis s) \<and> ?M = minted_casts s"
    if "mintToken w d = Inr m" "supabase_insert w (mintRecord d m) = Some e" for m e
    by (simp add: run tryBlock_minted[OF that(1)] recordAndNotify_store_fails[OF that(2)]
          set_status_def pr)
  have C: "?M = minted_casts s @ [mintRecord d m] \<and> ?P = insert (parentHash d) (processed_casts (redis s))"
    if m: "mintToken w d = Inr m" and ins: "supabase_insert w (mintRecord d m) = None" for m
  proof (cases "publishCast (neynar_post w) (reply d m)")
    case None
    show ?thesis
      by (simp add: run tryBlock_minted[OF m] recordAndNotify_ok[OF ins None] set_status_def pr
            markCastAsProcessed_def)
  next
    case (Some e)
    show ?thesis
      by (simp add: run tryBlock_minted[OF m] recordAndNotify_publish_fails[OF ins Some]
            set_status_def pr markCastAsProcessed_def)
  qed
  have D: "\<exists>m. mintToken w d = Inr m \<and> ?M = minted_casts s @ [mintRecord d m]"
    if ch: "?P \<noteq> processed_casts (redis s)"
  proof (cases "mintToken w d")
    case (Inl e)
    with A ch show ?thesis by blast
  next
    case (Inr m)
    show ?thesis
    proof (cases "supabase_insert w (mintRecord d m)")
      case None
      with C[OF Inr] Inr show ?thesis by blast
    next
      case (Some e)
      with B[OF Inr] ch show ?thesis by blast
    qed
  qed
  show ?thesis using A B C D by blast
qed

lemma example_mintToken: "mintToken ok_world example_cast = Inr example_minted"
  by (simp add: mintToken_def then_do_def minterWallet_of_def first_eth_address_def
        fetchParentCast_def fetchCasterWallet_def createImage_def uploadMetadata_def
        createSplitContract_def createToken_def fetchWithRetry.simps[of _ 0] respond_def
        ok_world_def example_cast_def example_minted_def API_TIMEOUT_def)

lemma mintToken_supabase_insert [simp]: "mintToken (w\<lparr>supabase_insert := f\<rparr>) d = mintToken w d"
  by (simp add: mintToken_def minterWallet_of_def fetchParentCast_def fetchCasterWallet_def
        createImage_def uploadMetadata_def createSplitContract_def createToken_def)

lemma mintToken_neynar_post [simp]:
  "mintToken (w\<lparr>neynar_post := f\<rparr>) d = mintToken w d"
  by (simp add: mintToken_def minterWallet_of_def fetchParentCast_def fetchCasterWallet_def
        createImage_def uploadMetadata_def createSplitContract_def createToken_def)

lemma example_dequeue:
  "dequeueCast (redis (worker_with [example_cast]))
     = (Some example_cast, \<lparr>mint_queue = [], failed_mint_queue = [], processed_casts = {}\<rparr>)"
  by (simp add: worker_with_def dequeueCast_def rPop_def)

lemma example_at_rest:
  "\<not> isShuttingDown (worker_with q)" "\<not> isProcessing (worker_with q)"
  by (simp_all add: worker_with_def)

theorem dedup_marked_after_history_write_witness:
  "processed_casts (redis (processQueueItem ok_world (worker_with [example_cast]))) = {''0xabc''}
   \<and> minted_casts (processQueueItem ok_world (worker_with [example_cast]))
       = [mintRecord example_cast example_minted]
   \<and> processed_casts (redis (processQueueItem store_fails_world (worker_with [example_cast]))) = {}
   \<and> minted_casts (processQueueItem store_fails_world (worker_with [example_cast])) = []"
proof -
  note ok = dedup_marked_after_history_write
              [OF example_at_rest example_dequeue, of ok_world]
  note bad = dedup_marked_after_history_write
              [OF example_at_rest example_dequeue, of store_fails_world]
  have ins: "supabase_insert ok_world (mintRecord example_cast example_minted) = None"
    by (simp add: ok_world_def)
  have rej: "supabase_insert store_fails_world (mintRecord example_cast example_minted)
               = Some (NonError ''[object Object]'')"
    by (simp add: store_fails_world_def)
  have m: "mintToken store_fails_world example_cast = Inr example_minted"
    by (simp add: store_fails_world_def example_mintToken)
  have start: "processed_casts (redis (worker_with [example_cast])) = {}"
    "minted_casts (worker_with [example_cast]) = []" "parentHash example_cast = ''0xabc''"
    by (simp_all add: worker_with_def example_cast_def)
  from ok example_mintToken ins
  have 1: "minted_casts (processQueueItem ok_world (worker_with [example_cast]))
             = minted_casts (worker_with [example_cast]) @ [mintRecord example_cast example_minted]
           \<and> processed_casts (redis (processQueueItem ok_world (worker_with [example_cast])))
             = insert (parentHash example_cast) (processed_casts (redis (worker_with [example_cast])))"
    by blast
  from bad m rej
  have 2: "processed_casts (redis (processQueueItem store_fails_world (worker_with [example_cast])))
             = processed_casts (redis (worker_with [example_cast]))
           \<and> minted_casts (processQueueItem store_fails_world (worker_with [example_cast]))
             = minted_casts (worker_with [example_cast])"
    by blast
  show ?thesis using 1 2 by (simp add: start)
qed

lemma no_wallet_mintToken:
  "mintToken w cast_without_wallet = Inl (new_Error ''Minter has no verified ETH address'')"
  by (simp add: mintToken_def then_do_def minterWallet_of_def first_eth_address_def
        cast_without_wallet_def)

lemma no_wallet_dequeue:
  "dequeueCast (redis (worker_with [cast_without_wallet]))
     = (Some cast_without_wallet, \<lparr>mint_queue = [], failed_mint_queue = [], processed_casts = {}\<rparr>)"
  by (simp add: worker_with_def dequeueCast_def rPop_def)

text \<open>
  C4, evaluated. The token is created and the history store then rejects the insert, handing
  over an object that is not an instance of \<^verbatim>\<open>Error\<close>, which \<^verbatim>\<open>storeMintedNFT\<close> throws as
  it is. The \<^verbatim>\<open>catch\<close> block records its string form in the health state's error list and
  sets the status \<^verbatim>\<open>error\<close>, but the push to the failed list stands under
  \<^verbatim>\<open>if (error instanceof Error)\<close> and is skipped: the item has left the pending list and
  is not on the failed list, and the failed count stays 0. A run that throws an \<^verbatim>\<open>Error\<close>
  (the author of the cast has no verified address) does put its item on the failed list with
  the message.
\<close>

theorem non_error_throw_skips_failed_list:
  "fst (tryBlock store_fails_world example_cast (worker_with [])) = Some (NonError ''[object Object]'')
   \<and> status (queueHealth (processQueueItem store_fails_world (worker_with [example_cast]))) = ''error''
   \<and> errors (queueHealth (processQueueItem store_fails_world (worker_with [example_cast])))
       = [''[object Object]'']
   \<and> failed_mint_queue (redis (processQueueItem store_fails_world (worker_with [example_cast]))) = []
   \<and> failedMintsCount (queueHealth (processQueueItem store_fails_world (worker_with [example_cast]))) = 0
   \<and> mint_queue (redis (processQueueItem store_fails_world (worker_with [example_cast]))) = []
   \<and> failed_mint_queue (redis (processQueueItem ok_world (worker_with [cast_without_wallet])))
       = [failedMint cast_without_wallet ''Minter has no verified ETH address''
            ''2024-02-18T10:00:05.000Z'']"
proof -
  have m: "mintToken store_fails_world example_cast = Inr example_minted"
    by (simp add: store_fails_world_def example_mintToken)
  have rej: "supabase_insert store_fails_world (mintRecord example_cast example_minted)
               = Some (NonError ''[object Object]'')"
    by (simp add: store_fails_world_def)
  have w0: "(worker_with [x])\<lparr>redis := \<lparr>mint_queue = [], failed_mint_queue = [],
              processed_casts = {}\<rparr>\<rparr> = worker_with []" for x
    by (simp add: worker_with_def)
  have t: "tryBlock store_fails_world example_cast (worker_with [])
             = (Some (NonError ''[object Object]''),
                set_status ''processing'' ((worker_with [])\<lparr>isProcessing := True\<rparr>))"
    by (simp add: tryBlock_minted[OF m] recordAndNotify_store_fails[OF rej])
  have n: "now ok_world = ''2024-02-18T10:00:05.000Z''"
    by (simp add: ok_world_def)
  have bad: "processQueueItem store_fails_world (worker_with [example_cast])
               = finallyBlock (catchBlock store_fails_world example_cast (NonError ''[object Object]'')
                   (set_status ''processing'' ((worker_with [])\<lparr>isProcessing := True\<rparr>)))"
    by (simp add: processQueueItem_item[OF example_at_rest example_dequeue] w0 t)
  have good: "processQueueItem ok_world (worker_with [cast_without_wallet])
               = finallyBlock (catchBlock ok_world cast_without_wallet
                   (new_Error ''Minter has no verified ETH address'')
                   (set_status ''processing'' ((worker_with [])\<lparr>isProcessing := True\<rparr>)))"
    by (simp add: processQueueItem_item[OF example_at_rest no_wallet_dequeue] w0
          tryBlock_mint_fails[OF no_wallet_mintToken])
  have thrown: "fst (tryBlock store_fails_world example_cast (worker_with []))
                  = Some (NonError ''[object Object]'')"
    by (simp add: t)
  show ?thesis
    unfolding bad good
    by (rule conjI[OF thrown])
       (simp add: catchBlock_def finallyBlock_def set_status_def addToFailedQueue_def lPush_def
          worker_with_def idle_health_def new_Error_def n Let_def)
qed

text \<open>
  C2, evaluated. Every step up to and including the history write and the mark succeeds and
  posting the reply then fails: the Neynar API answers with status 500 and
  \<^verbatim>\<open>publishCast\<close> throws an \<^verbatim>\<open>Error\<close>. The call is inside the same
  \<^verbatim>\<open>try\<close> block as the other steps, so the run ends in the \<^verbatim>\<open>catch\<close> block: the item is
  put on the failed list with the message of the failure, the failed count is 1, the status is
  \<^verbatim>\<open>error\<close> and the message is in the error list, although the history row is written and
  the cast is marked as processed.
\<close>

theorem notify_failure_fails_run:
  "failed_mint_queue (redis (processQueueItem publish_fails_world (worker_with [example_cast])))
     = [failedMint example_cast ''Neynar API error: Internal Server Error''
          ''2024-02-18T10:00:05.000Z'']
   \<and> failedMintsCount (queueHealth (processQueueItem publish_fails_world (worker_with [example_cast]))) = 1
   \<and> status (queueHealth (processQueueItem publish_fails_world (worker_with [example_cast]))) = ''error''
   \<and> errors (queueHealth (processQueueItem publish_fails_world (worker_with [example_cast])))
     = [''Neynar API error: Internal Server Error'']
   \<and> lastProcessedTime (processQueueItem publish_fails_world (worker_with [example_cast])) = None
   \<and> minted_casts (processQueueItem publish_fails_world (worker_with [example_cast]))
     = [mintRecord example_cast example_minted]
   \<and> processed_casts (redis (processQueueItem publish_fails_world (worker_with [example_cast])))
     = {''0xabc''}"
proof -
  have m: "mintToken publish_fails_world example_cast = Inr example_minted"
    by (simp add: publish_fails_world_def example_mintToken)
  have ins: "supabase_insert publish_fails_world (mintRecord example_cast example_minted) = None"
    by (simp add: publish_fails_world_def ok_world_def)
  have pf: "publishCast (neynar_post publish_fails_world) (reply example_cast example_minted)
              = Some (ErrorObj ''Error'' ''Neynar API error: Internal Server Error'')"
    by (simp add: publish_fails_world_def publishCast_def new_Error_def)
  have n: "now publish_fails_world = ''2024-02-18T10:00:05.000Z''"
    by (simp add: publish_fails_world_def ok_world_def)
  have h: "parentHash example_cast = ''0xabc''"
    by (simp add: example_cast_def)
  show ?thesis
    by (simp add: processQueueItem_item[OF example_at_rest example_dequeue]
          tryBlock_minted[OF m] recordAndNotify_publish_fails[OF ins pf])
       (simp add: catchBlock_def finallyBlock_def set_status_def addToFailedQueue_def lPush_def
          markCastAsProcessed_def worker_with_def idle_health_def n h Let_def)
qed

section \<open>The health snapshot\<close>

lemma lRange_first: "lRange xs 0 0 = take 1 xs"
  by (cases xs) (simp_all add: lRange_def Let_def)

lemma peekQueue_None: "(peekQueue r = None) = (mint_queue r = [])"
  by (cases "mint_queue r") (simp_all add: peekQueue_def lRange_first)

lemma getHealthStatus_size:
  "currentQueueSize (fst (fst (getHealthStatus None s))) = (if mint_queue (redis s) = [] then 0 else 1)"
  using peekQueue_None[of "redis s"]
  by (cases "peekQueue (redis s)") (simp_all add: getHealthStatus_def Let_def)

text \<open>
  C9, evaluated. With two items in the pending list the health snapshot reports a
  \<^verbatim>\<open>currentQueueSize\<close> of 1: the function sets the field to 1 when the list has a head
  item and to 0 otherwise, it never counts the list.
\<close>

theorem health_queue_size_two_items:
  "length (mint_queue (redis (worker_with [cast_without_wallet, example_cast]))) = 2
   \<and> currentQueueSize (fst (fst (getHealthStatus None (worker_with [cast_without_wallet, example_cast])))) = 1
   \<and> currentQueueSize (fst (fst (getHealthStatus None (worker_with [])))) = 0"
  by (simp add: getHealthStatus_size) (simp add: worker_with_def)

section \<open>The webhook handler and the signature\<close>

lemma neynar_POST_headers:
  "neynar_POST env (req\<lparr>headers := h\<rparr>) r table = neynar_POST env req r table"
  by (simp add: neynar_POST_def)

lemma unsigned_request_queued:
  "neynar_POST example_route_env unsigned_request
       \<lparr>mint_queue = [], failed_mint_queue = [], processed_casts = {}\<rparr> []
     = (Success (Some ''Cast queued for minting'') None,
        \<lparr>mint_queue = [example_cast], failed_mint_queue = [], processed_casts = {}\<rparr>, [])"
  by (simp add: neynar_POST_def unsigned_request_def example_route_env_def is_mint_command_def
        two_words_def trim_def strip_leading.simps white_space_def toLowerCase_def
        lower_char_def isCastProcessed_def
        getMintingDetails_def enqueueCast_def lPush_def queueData_def example_cast_def)

text \<open>
  C3, evaluated. The handler gives the same result whatever the headers of the request are.
  A request that carries no signature header and no timestamp header, for which
  \<^verbatim>\<open>verifyWebhookSignature\<close> returns \<^verbatim>\<open>false\<close> whatever the body text and the secret,
  is answered with \<^verbatim>\<open>Cast queued for minting\<close> and its cast is pushed to the pending list.
\<close>

theorem webhook_accepts_unsigned_request:
  "neynar_POST env (req\<lparr>headers := h\<rparr>) r table = neynar_POST env req r table
   \<and> verifyWebhookSignature hmac raw (header ''x-neynar-signature'' unsigned_request)
        (header ''x-neynar-timestamp'' unsigned_request) secret = Inr False
   \<and> neynar_POST example_route_env unsigned_request
        \<lparr>mint_queue = [], failed_mint_queue = [], processed_casts = {}\<rparr> []
      = (Success (Some ''Cast queued for minting'') None,
         \<lparr>mint_queue = [example_cast], failed_mint_queue = [], processed_casts = {}\<rparr>, [])"
proof -
  have v: "verifyWebhookSignature hmac raw (header ''x-neynar-signature'' unsigned_request)
        (header ''x-neynar-timestamp'' unsigned_request) secret = Inr False"
    by (simp add: verifyWebhookSignature_def header_def unsigned_request_def)
  show ?thesis
    using neynar_POST_headers unsigned_request_queued v by simp
qed

end
